theory Spec2Isabelle
  imports Main
begin

section \<open>labrad.decorators: the \<open>setting\<close> decorator\<close>

text \<open>
  A shallow embedding of \<^verbatim>\<open>src/labrad/decorators.py\<close>: the cartesian product
  \<^verbatim>\<open>_product\<close>, the generator test \<^verbatim>\<open>_isGenerator\<close>, and the decorator
  \<^verbatim>\<open>setting(...)(f)\<close>, which compiles the list of accepted type strings of a server
  method and builds the function \<^verbatim>\<open>unpack\<close> that calls the method on a decoded payload.
  Every \<^verbatim>\<open>raise\<close> of the source is an \<open>Inl\<close> result.
\<close>

subsection \<open>Python values\<close>

text \<open>
  The values the decorator handles: \<^verbatim>\<open>None\<close>, tuples, and everything else (numbers,
  strings, objects such as \<^verbatim>\<open>self\<close> and the context \<^verbatim>\<open>c\<close>), which the source never
  looks into and which is an atom of an arbitrary type here.
\<close>

datatype 'a pyval = PyNone | PyTuple "'a pyval list" | PyAtom 'a

text \<open>\<^verbatim>\<open>isinstance(data, tuple)\<close>\<close>

fun is_tuple :: "'a pyval \<Rightarrow> bool" where
  "is_tuple (PyTuple xs) = True"
| "is_tuple PyNone = False"
| "is_tuple (PyAtom a) = False"

subsection \<open>Errors\<close>

text \<open>
  The source raises \<^verbatim>\<open>Exception\<close> with six different messages; one constructor for each,
  in the order of the source. \<open>TagSyntaxError\<close> is what the tag parser raises on a tag it
  cannot read; \<open>TypeError\<close> and \<open>IndexError\<close> are Python's own errors for subscripting
  \<^verbatim>\<open>None\<close> and for an index out of range.
\<close>

datatype error =
    NotAValidParameter string
  | MustSpecifyTypesForFirstArg
  | ClusterOrAnyInFirstArg
  | EmptyTagWithMoreThanOneRequired
  | EmptyTagAfterFirstArg
  | ClusterInFirstParam
  | TagSyntaxError string
  | TypeError
  | IndexError

fun ebind :: "error + 'a \<Rightarrow> ('a \<Rightarrow> error + 'b) \<Rightarrow> error + 'b" where
  "ebind (Inl e) k = Inl e"
| "ebind (Inr x) k = k x"

text \<open>A list comprehension whose body may raise: the first error, in list order, wins.\<close>

fun emap :: "('a \<Rightarrow> error + 'b) \<Rightarrow> 'a list \<Rightarrow> error + 'b list" where
  "emap g [] = Inr []"
| "emap g (x # xs) = ebind (g x) (\<lambda>y. ebind (emap g xs) (\<lambda>ys. Inr (y # ys)))"

subsection \<open>Type descriptors (labrad.types)\<close>

text \<open>
  Modelled from the spec: the module \<^verbatim>\<open>labrad.types\<close> (imported as \<^verbatim>\<open>T\<close>) is not part
  of the source given. The spec describes a type descriptor as an opaque value that
  supports equality and the tests "is the no-argument descriptor", "is the wildcard any",
  "is a cluster (a fixed-arity tuple of types)". \<open>LRNone\<close>, \<open>LRAny\<close> and \<open>LRCluster\<close>
  are the three classes the source names; \<open>LROther\<close> stands for every other descriptor.
  \<^verbatim>\<open>T.LRNone() in xs\<close> is list membership with HOL equality, \<^verbatim>\<open>T.LRCluster(*ts)\<close>
  is the cluster of the descriptors \<open>ts\<close>, and iterating over a cluster (the
  \<^verbatim>\<open>zip(t, args)\<close> of the source) gives these descriptors in order.
\<close>

datatype lrtype = LRNone | LRAny | LRCluster "lrtype list" | LROther string

text \<open>\<^verbatim>\<open>isinstance(t, (T.LRAny, T.LRCluster))\<close> and \<^verbatim>\<open>isinstance(t, T.LRCluster)\<close>\<close>

fun is_any_or_cluster :: "lrtype \<Rightarrow> bool" where
  "is_any_or_cluster LRAny = True"
| "is_any_or_cluster (LRCluster ts) = True"
| "is_any_or_cluster LRNone = False"
| "is_any_or_cluster (LROther s) = False"

fun is_cluster :: "lrtype \<Rightarrow> bool" where
  "is_cluster (LRCluster ts) = True"
| "is_cluster LRNone = False"
| "is_cluster LRAny = False"
| "is_cluster (LROther s) = False"

text \<open>
  The collaborators the decorator calls and the source does not define, taken as
  parameters: the tag parser \<^verbatim>\<open>T.parseTypeTag\<close> (\<open>None\<close> when it raises), \<^verbatim>\<open>str\<close> of a
  type descriptor (the \<^verbatim>\<open>%s\<close> of a descriptor), \<^verbatim>\<open>repr\<close> of a default value (the
  \<^verbatim>\<open>%r\<close>), and twisted's \<^verbatim>\<open>inlineCallbacks\<close>.
\<close>

record ('a, 'r) env =
  parseTypeTag :: "string \<Rightarrow> lrtype option"
  str_type :: "lrtype \<Rightarrow> string"
  repr :: "'a pyval \<Rightarrow> string"
  inlineCallbacks :: "('a pyval list \<Rightarrow> 'r) \<Rightarrow> ('a pyval list \<Rightarrow> 'r)"

definition parse_tag :: "('a, 'r) env \<Rightarrow> string \<Rightarrow> error + lrtype" where
  "parse_tag E s = (case parseTypeTag E s of None \<Rightarrow> Inl (TagSyntaxError s) | Some t \<Rightarrow> Inr t)"

text \<open>\<^verbatim>\<open>[T.parseTypeTag(s) for s in tags]\<close>\<close>

definition parse_tags :: "('a, 'r) env \<Rightarrow> string list \<Rightarrow> error + lrtype list" where
  "parse_tags E tags = emap (parse_tag E) tags"

subsection \<open>Functions as the decorator sees them\<close>

text \<open>
  What the decorator reads of the method \<^verbatim>\<open>f\<close>: the names and defaults that
  \<^verbatim>\<open>getargspec(f)\<close> returns (\<^verbatim>\<open>defaults\<close> is \<^verbatim>\<open>None\<close> or a tuple for the last
  parameters), \<^verbatim>\<open>f.func_code.co_flags\<close>, \<^verbatim>\<open>f.__name__\<close>, and the call \<^verbatim>\<open>f(...)\<close> itself:
  \<open>func_call f vs\<close> is the result of calling \<^verbatim>\<open>f\<close> on the positional arguments \<open>vs\<close>
  (whatever it is, a value or an error of the call).
\<close>

record ('a, 'r) pyfunc =
  func_args :: "string list"
  func_defaults :: "'a pyval list option"
  co_flags :: nat
  func_name :: string
  func_call :: "'a pyval list \<Rightarrow> 'r"

text \<open>\<^verbatim>\<open>bool(f.func_code.co_flags & 0x20)\<close>: bit 5 of the flags.\<close>

definition isGenerator :: "('a, 'r) pyfunc \<Rightarrow> bool" where
  "isGenerator f = ((co_flags f div 32) mod 2 = 1)"

subsection \<open>Python slices, range and join\<close>

text \<open>\<^verbatim>\<open>xs[k:]\<close> and \<^verbatim>\<open>xs[:n]\<close>; a negative bound counts from the end.\<close>

definition slice_from :: "'a list \<Rightarrow> int \<Rightarrow> 'a list" where
  "slice_from xs k = (if 0 \<le> k then drop (nat k) xs else drop (length xs - nat (- k)) xs)"

definition slice_to :: "'a list \<Rightarrow> int \<Rightarrow> 'a list" where
  "slice_to xs n = (if 0 \<le> n then take (nat n) xs else take (length xs - nat (- n)) xs)"

text \<open>\<^verbatim>\<open>range(hi, lo - 1, -1)\<close>: \<open>hi, hi - 1, ..., lo\<close>, empty when \<open>hi < lo\<close>.\<close>

definition range_down :: "int \<Rightarrow> int \<Rightarrow> int list" where
  "range_down hi lo = rev [lo..hi]"

text \<open>\<^verbatim>\<open>sep.join(xs)\<close>\<close>

fun join :: "string \<Rightarrow> string list \<Rightarrow> string" where
  "join sep [] = []"
| "join sep [x] = x"
| "join sep (x # y # ys) = x @ sep @ join sep (y # ys)"

text \<open>\<^verbatim>\<open>defaults[k]\<close> for \<open>k \<ge> 0\<close>: \<^verbatim>\<open>None\<close> has no items, a tuple raises out of range.\<close>

definition default_at :: "'a pyval list option \<Rightarrow> nat \<Rightarrow> error + 'a pyval" where
  "default_at defaults k =
     (case defaults of
        None \<Rightarrow> Inl TypeError
      | Some ds \<Rightarrow> (if k < length ds then Inr (ds ! k) else Inl IndexError))"

subsection \<open>\<^verbatim>\<open>_product\<close>\<close>

text \<open>
  \<^verbatim>\<open>
  def _product(lists):
      if not len(lists): return [[]]
      return [[h] + t for h in lists[0] for t in _product(lists[1:])]
  \<close>
\<close>

fun product :: "'a list list \<Rightarrow> 'a list list" where
  "product [] = [[]]"
| "product (l # ls) = concat (map (\<lambda>h. map (\<lambda>t. [h] @ t) (product ls)) l)"

subsection \<open>The decorator\<close>

text \<open>
  The keyword arguments \<^verbatim>\<open>**params\<close> are an association list from parameter names to
  lists of type tags; \<open>map_of\<close> is the dictionary lookup.
\<close>

type_synonym params = "(string \<times> string list) list"

text \<open>\<^verbatim>\<open>params.get(a, d)\<close>\<close>

definition params_get :: "params \<Rightarrow> string \<Rightarrow> string list \<Rightarrow> string list" where
  "params_get params a d = (case map_of params a of None \<Rightarrow> d | Some l \<Rightarrow> l)"

text \<open>
  \<^verbatim>\<open>
  for p in params:
      if p not in args:
          raise Exception("'%s' is not a valid parameter." % p)
  \<close>
\<close>

fun check_params :: "params \<Rightarrow> string list \<Rightarrow> error + unit" where
  "check_params [] args = Inr ()"
| "check_params ((p, tags) # ps) args =
     (if p \<notin> set args then Inl (NotAValidParameter p) else check_params ps args)"

text \<open>
  \<^verbatim>\<open>
  for s in params[args[0]]:
      t = T.parseTypeTag(s)
      if isinstance(t, (T.LRAny, T.LRCluster)):
          raise Exception('Cannot accept cluster or ? in first arg ...')
  \<close>
\<close>

fun check_first_types :: "('a, 'r) env \<Rightarrow> string list \<Rightarrow> error + unit" where
  "check_first_types E [] = Inr ()"
| "check_first_types E (s # ss) =
     ebind (parse_tag E s) (\<lambda>t.
       if is_any_or_cluster t then Inl ClusterOrAnyInFirstArg else check_first_types E ss)"

text \<open>
  \<^verbatim>\<open>
  if Nrequired <= 1:
      if args[0] not in params:
          raise Exception('Must specify types for first argument ...')
      for s in params[args[0]]: ...
  \<close>
  Only reached with \<open>Nparams \<ge> 2\<close>, so \<open>args ! 0\<close> exists.
\<close>

definition check_first_arg ::
  "('a, 'r) env \<Rightarrow> params \<Rightarrow> string list \<Rightarrow> int \<Rightarrow> error + unit" where
  "check_first_arg E params args Nrequired =
     (if Nrequired \<le> 1 then
        (case map_of params (args ! 0) of
           None \<Rightarrow> Inl MustSpecifyTypesForFirstArg
         | Some tags \<Rightarrow> check_first_types E tags)
      else Inr ())"

text \<open>
  \<^verbatim>\<open>
  types = [T.parseTypeTag(s) for s in params.get(args[0], [])]
  if Nrequired > 1 and T.LRNone() in types:
      raise Exception("'' not allowed when more than one arg is required.")
  \<close>
\<close>

definition check_empty_first ::
  "('a, 'r) env \<Rightarrow> params \<Rightarrow> string list \<Rightarrow> int \<Rightarrow> error + unit" where
  "check_empty_first E params args Nrequired =
     ebind (parse_tags E (params_get params (args ! 0) [])) (\<lambda>types.
       if Nrequired > 1 \<and> LRNone \<in> set types then Inl EmptyTagWithMoreThanOneRequired
       else Inr ())"

text \<open>
  \<^verbatim>\<open>
  for p in args[1:]:
      types = [T.parseTypeTag(s) for s in params.get(p, [])]
      if T.LRNone() in types:
          raise Exception("'' not allowed after first arg.")
  \<close>
\<close>

fun check_later_args :: "('a, 'r) env \<Rightarrow> params \<Rightarrow> string list \<Rightarrow> error + unit" where
  "check_later_args E params [] = Inr ()"
| "check_later_args E params (p # ps) =
     ebind (parse_tags E (params_get params p [])) (\<lambda>types.
       if LRNone \<in> set types then Inl EmptyTagAfterFirstArg
       else check_later_args E params ps)"

text \<open>
  \<^verbatim>\<open>
  groups = []
  for n in range(Nparams, Nrequired-1, -1):
      lists = [params.get(a, ['?']) for a in args[:n]]
      if len(lists):
          groups += _product(lists)
  \<close>
\<close>

definition lists_for :: "params \<Rightarrow> string list \<Rightarrow> int \<Rightarrow> string list list" where
  "lists_for params args n = map (\<lambda>a. params_get params a [''?'']) (slice_to args n)"

definition make_groups :: "params \<Rightarrow> string list \<Rightarrow> nat \<Rightarrow> int \<Rightarrow> string list list" where
  "make_groups params args Nparams Nrequired =
     concat (map (\<lambda>n. let lists = lists_for params args n
                       in if length lists \<noteq> 0 then product lists else [])
                 (range_down (int Nparams) Nrequired))"

text \<open>
  \<^verbatim>\<open>
  defstr = ', '.join('%s=%r' % (args[n], defaults[n-len(group)])
                     for n in range(len(group), Nparams))
  s = s + ': defaults [%s]' % defstr
  \<close>
  \<open>g\<close> is \<^verbatim>\<open>len(group)\<close>; \<open>n < Nparams = length args\<close>, so \<open>args ! n\<close> exists.
\<close>

definition defaults_note ::
  "('a, 'r) env \<Rightarrow> string list \<Rightarrow> 'a pyval list option \<Rightarrow> nat \<Rightarrow> nat \<Rightarrow> error + string" where
  "defaults_note E args defaults g Nparams =
     ebind (emap (\<lambda>n. ebind (default_at defaults (n - g)) (\<lambda>d. Inr (args ! n @ ''='' @ repr E d)))
                 [g..<Nparams])
       (\<lambda>items. Inr ('': defaults ['' @ join '', '' items @ '']''))"

text \<open>
  The body of \<^verbatim>\<open>for group in groups:\<close>, giving the pair \<^verbatim>\<open>(t, s)\<close> appended to
  \<^verbatim>\<open>accepts_t\<close> and \<^verbatim>\<open>accepts_s\<close>:
  \<^verbatim>\<open>
  if len(group) > 1:
      t = T.LRCluster(*[T.parseTypeTag(t) for t in group])
      s = ', '.join('%s{%s}' % (sub_t, arg) for sub_t, arg in zip(t, args))
      s = '(%s)' % s
  else:
      t = T.parseTypeTag(group[0])
      if isinstance(t, T.LRCluster):
          raise Exception("Can't accept cluster in first param.")
      s = '%s{%s}' % (group[0], args[0])
  if len(group) < Nparams:
      ... s = s + ': defaults [%s]' % defstr
  \<close>
\<close>

definition type_and_string ::
  "('a, 'r) env \<Rightarrow> string list \<Rightarrow> string list \<Rightarrow> error + lrtype \<times> string" where
  "type_and_string E args grp =
     (if length grp > 1 then
        ebind (parse_tags E grp) (\<lambda>ts.
          Inr (LRCluster ts,
               ''('' @ join '', '' (map (\<lambda>(sub_t, arg). str_type E sub_t @ ''{'' @ arg @ ''}'')
                                      (zip ts args)) @ '')''))
      else
        (case grp of
           [] \<Rightarrow> Inl IndexError
         | g0 # rest \<Rightarrow>
             ebind (parse_tag E g0) (\<lambda>t.
               if is_cluster t then Inl ClusterInFirstParam
               else Inr (t, g0 @ ''{'' @ args ! 0 @ ''}''))))"

definition compile_group ::
  "('a, 'r) env \<Rightarrow> string list \<Rightarrow> 'a pyval list option \<Rightarrow> nat \<Rightarrow> string list
     \<Rightarrow> error + lrtype \<times> string" where
  "compile_group E args defaults Nparams grp =
     ebind (type_and_string E args grp) (\<lambda>(t, s).
       if length grp < Nparams then
         ebind (defaults_note E args defaults (length grp) Nparams) (\<lambda>note. Inr (t, s @ note))
       else Inr (t, s))"

text \<open>
  \<^verbatim>\<open>
  defstr = ', '.join('%s=%r' % (a, d) for a, d in zip(args, defaults))
  accepts_s.append(': defaults [%s]' % defstr)
  \<close>
\<close>

definition all_defaults_note ::
  "('a, 'r) env \<Rightarrow> string list \<Rightarrow> 'a pyval list option \<Rightarrow> error + string" where
  "all_defaults_note E args defaults =
     (case defaults of
        None \<Rightarrow> Inl TypeError
      | Some ds \<Rightarrow>
          Inr ('': defaults ['' @ join '', '' (map (\<lambda>(a, d). a @ ''='' @ repr E d) (zip args ds))
               @ '']''))"

subsection \<open>The five shapes of \<^verbatim>\<open>unpack\<close>\<close>

type_synonym ('a, 'r) unpack_fn = "'a pyval \<Rightarrow> 'a pyval \<Rightarrow> 'a pyval \<Rightarrow> 'r"

text \<open>\<open>Nparams = 0\<close>: \<^verbatim>\<open>return f(self, c)\<close>\<close>

definition unpack_none :: "('a pyval list \<Rightarrow> 'r) \<Rightarrow> ('a, 'r) unpack_fn" where
  "unpack_none f self c data = f [self, c]"

text \<open>
  \<open>Nparams = 1\<close>, \<open>Nrequired = 0\<close>:
  \<^verbatim>\<open>
  if data is None:
      return f(self, c)
  return f(self, c, data)
  \<close>
\<close>

definition unpack_one_optional :: "('a pyval list \<Rightarrow> 'r) \<Rightarrow> ('a, 'r) unpack_fn" where
  "unpack_one_optional f self c data = (if data = PyNone then f [self, c] else f [self, c, data])"

text \<open>\<open>Nparams = 1\<close>, \<open>Nrequired \<noteq> 0\<close>: \<^verbatim>\<open>unpack = f\<close>, called as \<^verbatim>\<open>unpack(self, c, data)\<close>.\<close>

definition unpack_direct :: "('a pyval list \<Rightarrow> 'r) \<Rightarrow> ('a, 'r) unpack_fn" where
  "unpack_direct f self c data = f [self, c, data]"

text \<open>
  \<open>Nparams \<ge> 2\<close>, \<open>Nrequired = 0\<close>:
  \<^verbatim>\<open>
  if isinstance(data, tuple):
      return f(self, c, *data)
  elif data is None:
      return f(self, c)
  else:
      return f(self, c, data)
  \<close>
\<close>

definition unpack_many_optional :: "('a pyval list \<Rightarrow> 'r) \<Rightarrow> ('a, 'r) unpack_fn" where
  "unpack_many_optional f self c data =
     (case data of
        PyTuple xs \<Rightarrow> f ([self, c] @ xs)
      | PyNone \<Rightarrow> f [self, c]
      | PyAtom a \<Rightarrow> f [self, c, data])"

text \<open>
  \<open>Nparams \<ge> 2\<close>, \<open>Nrequired \<noteq> 0\<close>:
  \<^verbatim>\<open>
  if isinstance(data, tuple):
      return f(self, c, *data)
  else:
      return f(self, c, data)
  \<close>
\<close>

definition unpack_many :: "('a pyval list \<Rightarrow> 'r) \<Rightarrow> ('a, 'r) unpack_fn" where
  "unpack_many f self c data =
     (case data of
        PyTuple xs \<Rightarrow> f ([self, c] @ xs)
      | PyNone \<Rightarrow> f [self, c, data]
      | PyAtom a \<Rightarrow> f [self, c, data])"

subsection \<open>\<^verbatim>\<open>setting(...)(f)\<close>\<close>

text \<open>
  \<^verbatim>\<open>
  args, varargs, varkw, defaults = getargspec(f)
  args = args[lr_num_params:]
  ...
  Nparams = len(args)
  Noptional = 0 if defaults is None else len(defaults)
  Nrequired = Nparams - Noptional
  \<close>
  \<open>Nrequired\<close> is an integer: it is negative when a parameter cut off by
  \<^verbatim>\<open>lr_num_params\<close> has a default.
\<close>

definition args_of :: "int \<Rightarrow> ('a, 'r) pyfunc \<Rightarrow> string list" where
  "args_of lr_num_params f = slice_from (func_args f) lr_num_params"

definition Nparams :: "int \<Rightarrow> ('a, 'r) pyfunc \<Rightarrow> nat" where
  "Nparams lr_num_params f = length (args_of lr_num_params f)"

definition Noptional :: "('a, 'r) pyfunc \<Rightarrow> nat" where
  "Noptional f = (case func_defaults f of None \<Rightarrow> 0 | Some ds \<Rightarrow> length ds)"

definition Nrequired :: "int \<Rightarrow> ('a, 'r) pyfunc \<Rightarrow> int" where
  "Nrequired lr_num_params f = int (Nparams lr_num_params f) - int (Noptional f)"

text \<open>
  \<^verbatim>\<open>
  if _isGenerator(f):
      f = inlineCallbacks(f)
  \<close>
  The function that \<^verbatim>\<open>unpack\<close> calls.
\<close>

definition lifted :: "('a, 'r) env \<Rightarrow> ('a, 'r) pyfunc \<Rightarrow> 'a pyval list \<Rightarrow> 'r" where
  "lifted E f = (if isGenerator f then inlineCallbacks E (func_call f) else func_call f)"

text \<open>
  The three branches on \<open>Nparams\<close>; each gives \<^verbatim>\<open>accepts_s\<close>, \<^verbatim>\<open>accepts_t\<close> and
  \<^verbatim>\<open>unpack\<close>. \<open>call\<close> is \<^verbatim>\<open>f\<close> after the lifting above.
\<close>

type_synonym ('a, 'r) compiled = "string list \<times> lrtype list \<times> ('a, 'r) unpack_fn"

text \<open>
  \<^verbatim>\<open>
  if Nparams == 0:
      accepts_s = [''] # only accept notifier
      accepts_t = [T.parseTypeTag(s) for s in accepts_s]
  \<close>
\<close>

definition compile_none ::
  "('a, 'r) env \<Rightarrow> ('a pyval list \<Rightarrow> 'r) \<Rightarrow> error + ('a, 'r) compiled" where
  "compile_none E call =
     (let accepts_s = [[]]
      in ebind (parse_tags E accepts_s) (\<lambda>accepts_t.
           Inr (accepts_s, accepts_t, unpack_none call)))"

text \<open>
  \<^verbatim>\<open>
  elif Nparams == 1:
      accepts_s = params.get(args[0], [])
      accepts_t = [T.parseTypeTag(s) for s in accepts_s]
      if Nrequired == 0:
          if len(accepts_t) and T.LRNone() not in accepts_t:
              accepts_s.append(': defaults [%s=%r]' % (args[0], defaults[0]))
              accepts_t.append(T.LRNone())
          ... unpack with the test for None
      else:
          unpack = f
  \<close>
  \<^verbatim>\<open>append\<close> changes the list that \<^verbatim>\<open>params\<close> holds; the model returns the longer list
  and passes no state on to a later use of the same decorator.
\<close>

definition compile_one ::
  "('a, 'r) env \<Rightarrow> params \<Rightarrow> string list \<Rightarrow> 'a pyval list option \<Rightarrow> int
     \<Rightarrow> ('a pyval list \<Rightarrow> 'r) \<Rightarrow> error + ('a, 'r) compiled" where
  "compile_one E params args defaults Nreq call =
     (let accepts_s = params_get params (args ! 0) []
      in ebind (parse_tags E accepts_s) (\<lambda>accepts_t.
           if Nreq = 0 then
             (if length accepts_t \<noteq> 0 \<and> LRNone \<notin> set accepts_t then
                ebind (default_at defaults 0) (\<lambda>d.
                  Inr (accepts_s @ ['': defaults ['' @ args ! 0 @ ''='' @ repr E d @ '']''],
                       accepts_t @ [LRNone],
                       unpack_one_optional call))
              else Inr (accepts_s, accepts_t, unpack_one_optional call))
           else Inr (accepts_s, accepts_t, unpack_direct call)))"

text \<open>
  The \<^verbatim>\<open>else:\<close> branch (\<open>Nparams \<ge> 2\<close>): the three checks, the groups, the loop over
  the groups, and
  \<^verbatim>\<open>
  if Nrequired == 0:
      if T.LRNone() not in accepts_t:
          ... accepts_s.append(': defaults [%s]' % defstr)
          accepts_t.append(T.LRNone())
      ... unpack with the tests for tuple and None
  else:
      ... unpack with the test for tuple
  \<close>
\<close>

definition compile_many ::
  "('a, 'r) env \<Rightarrow> params \<Rightarrow> string list \<Rightarrow> 'a pyval list option \<Rightarrow> nat \<Rightarrow> int
     \<Rightarrow> ('a pyval list \<Rightarrow> 'r) \<Rightarrow> error + ('a, 'r) compiled" where
  "compile_many E params args defaults Npar Nreq call =
     ebind (check_first_arg E params args Nreq) (\<lambda>u1.
     ebind (check_empty_first E params args Nreq) (\<lambda>u2.
     ebind (check_later_args E params (drop 1 args)) (\<lambda>u3.
     ebind (emap (compile_group E args defaults Npar) (make_groups params args Npar Nreq))
       (\<lambda>ts.
         let accepts_t = map fst ts; accepts_s = map snd ts
         in if Nreq = 0 then
              (if LRNone \<notin> set accepts_t then
                 ebind (all_defaults_note E args defaults) (\<lambda>note.
                   Inr (accepts_s @ [note], accepts_t @ [LRNone], unpack_many_optional call))
               else Inr (accepts_s, accepts_t, unpack_many_optional call))
            else Inr (accepts_s, accepts_t, unpack_many call)))))"

text \<open>Lines 54 to 182 of the source: everything before the attributes are set.\<close>

definition compile_setting ::
  "('a, 'r) env \<Rightarrow> int \<Rightarrow> params \<Rightarrow> ('a, 'r) pyfunc \<Rightarrow> error + ('a, 'r) compiled" where
  "compile_setting E lr_num_params params f =
     (let args = args_of lr_num_params f;
          defaults = func_defaults f;
          call = lifted E f
      in ebind (check_params params args) (\<lambda>u.
           if Nparams lr_num_params f = 0 then compile_none E call
           else if Nparams lr_num_params f = 1 then
             compile_one E params args defaults (Nrequired lr_num_params f) call
           else
             compile_many E params args defaults (Nparams lr_num_params f)
               (Nrequired lr_num_params f) call))"

text \<open>
  The decorated function: \<^verbatim>\<open>f\<close> (lifted when it is a generator) with its attributes
  \<^verbatim>\<open>
  f.ID = lr_ID
  f.name = lr_name or f.__name__
  f.accepts = accepts_s
  f.returns = returns
  f.isSetting = True
  f.unpack = unpack
  \<close>
\<close>

record ('a, 'r) lr_setting =
  func :: "'a pyval list \<Rightarrow> 'r"
  ID :: int
  name :: string
  accepts :: "string list"
  returns :: "string list"
  isSetting :: bool
  unpack :: "('a, 'r) unpack_fn"

definition decorated ::
  "('a, 'r) env \<Rightarrow> int \<Rightarrow> string option \<Rightarrow> string list \<Rightarrow> int \<Rightarrow> params \<Rightarrow> ('a, 'r) pyfunc
     \<Rightarrow> error + ('a, 'r) lr_setting" where
  "decorated E lr_ID lr_name rets lr_num_params params f =
     ebind (compile_setting E lr_num_params params f) (\<lambda>(accepts_s, accepts_t, unp).
       Inr \<lparr>func = lifted E f,
            ID = lr_ID,
            name = (case lr_name of
                      None \<Rightarrow> func_name f
                    | Some n \<Rightarrow> if n = [] then func_name f else n),
            accepts = accepts_s,
            returns = rets,
            isSetting = True,
            unpack = unp\<rparr>)"

text \<open>\<^verbatim>\<open>accepts_t\<close>, the list of descriptors built beside \<^verbatim>\<open>accepts_s\<close>.\<close>

definition accepted_types ::
  "('a, 'r) env \<Rightarrow> int \<Rightarrow> params \<Rightarrow> ('a, 'r) pyfunc \<Rightarrow> error + lrtype list" where
  "accepted_types E lr_num_params params f =
     ebind (compile_setting E lr_num_params params f) (\<lambda>(accepts_s, accepts_t, unp).
       Inr accepts_t)"

subsection \<open>A concrete environment\<close>

text \<open>
  Modelled from the spec: an instance of the tag parser, of \<^verbatim>\<open>str\<close> on descriptors and
  of \<^verbatim>\<open>repr\<close>, for running the decorator on concrete methods. The empty tag is the
  no-argument descriptor, \<^verbatim>\<open>?\<close> the wildcard, a tag in parentheses a cluster of one-letter
  tags, and any other tag a descriptor printed as the tag. Values are atoms that carry their
  own \<^verbatim>\<open>repr\<close> text.
\<close>

fun sample_parse :: "string \<Rightarrow> lrtype option" where
  "sample_parse [] = Some LRNone"
| "sample_parse (c # cs) =
     (if c # cs = ''?'' then Some LRAny
      else if c = CHR ''('' then Some (LRCluster (map (\<lambda>x. LROther [x]) (butlast cs)))
      else Some (LROther (c # cs)))"

fun sample_str :: "lrtype \<Rightarrow> string" where
  "sample_str LRNone = []"
| "sample_str LRAny = ''?''"
| "sample_str (LROther s) = s"
| "sample_str (LRCluster ts) = ''('' @ concat (map sample_str ts) @ '')''"

fun sample_repr :: "string pyval \<Rightarrow> string" where
  "sample_repr PyNone = ''None''"
| "sample_repr (PyAtom s) = s"
| "sample_repr (PyTuple vs) = ''('' @ join '', '' (map sample_repr vs) @ '')''"

definition sample_env :: "(string, error + string pyval list) env" where
  "sample_env = \<lparr>parseTypeTag = sample_parse, str_type = sample_str, repr = sample_repr,
                  inlineCallbacks = (\<lambda>g. g)\<rparr>"

subsection \<open>Calling a Python function\<close>

text \<open>
  Python's rule for a call with positional arguments \<open>vs\<close> of a function
  \<^verbatim>\<open>def f(p1, ..., pk)\<close> that has no \<^verbatim>\<open>*args\<close> and whose last parameters have the
  defaults \<open>ds\<close>: too many arguments, or too few to reach the parameters that have a
  default, is a \<^verbatim>\<open>TypeError\<close>; otherwise the parameters left over take their defaults.
  The result is the list of the values of \<^verbatim>\<open>p1, ..., pk\<close>.
\<close>

definition bind_positional :: "nat \<Rightarrow> 'a pyval list \<Rightarrow> 'a pyval list \<Rightarrow> error + 'a pyval list" where
  "bind_positional k ds vs =
     (if k < length vs \<or> length vs + length ds < k then Inl TypeError
      else Inr (vs @ drop (length vs + length ds - k) ds))"

text \<open>
  What \<^verbatim>\<open>getargspec\<close> and a call see of \<^verbatim>\<open>def f(<names>): <body>\<close>, a plain function
  (not a generator: flags \<^verbatim>\<open>0x43\<close>); \<open>body\<close> runs on the values of the parameters.
\<close>

definition plain_def ::
  "string list \<Rightarrow> 'a pyval list option \<Rightarrow> ('a pyval list \<Rightarrow> 'b) \<Rightarrow> ('a, error + 'b) pyfunc" where
  "plain_def names defaults body =
     \<lparr>func_args = names, func_defaults = defaults, co_flags = 67, func_name = ''f'',
      func_call = (\<lambda>vs. case bind_positional (length names)
                                 (case defaults of None \<Rightarrow> [] | Some ds \<Rightarrow> ds) vs of
                            Inl e \<Rightarrow> Inl e
                          | Inr bound \<Rightarrow> Inr (body bound))\<rparr>"

text \<open>
  \<^verbatim>\<open>def f(self, c, <names>)\<close> with the given defaults, whose body returns the values of
  its parameters.
\<close>

definition sample_method ::
  "string list \<Rightarrow> string pyval list option \<Rightarrow> (string, error + string pyval list) pyfunc" where
  "sample_method names defaults = plain_def ([''self'', ''c''] @ names) defaults (\<lambda>bound. bound)"

text \<open>The attribute \<^verbatim>\<open>accepts\<close> of the result of a registration, or its error.\<close>

definition accepts_of :: "error + ('a, 'r) lr_setting \<Rightarrow> error + string list" where
  "accepts_of res = (case res of Inl e \<Rightarrow> Inl e | Inr r \<Rightarrow> Inr (accepts r))"

text \<open>\<^verbatim>\<open>unpack(self, c, data)\<close> on the result of a registration.\<close>

definition unpack_of ::
  "error + ('a, error + 'b) lr_setting \<Rightarrow> 'a pyval \<Rightarrow> 'a pyval \<Rightarrow> 'a pyval \<Rightarrow> error + 'b" where
  "unpack_of res self c data = (case res of Inl e \<Rightarrow> Inl e | Inr r \<Rightarrow> unpack r self c data)"

text \<open>
  The default that \<^verbatim>\<open>def\<close> declares for parameter number \<open>i\<close> of \<^verbatim>\<open>getargspec(f).args\<close>:
  the tuple \<^verbatim>\<open>defaults\<close> belongs to the last \<^verbatim>\<open>len(defaults)\<close> parameters.
\<close>

definition declared_default :: "('a, 'r) pyfunc \<Rightarrow> nat \<Rightarrow> 'a pyval option" where
  "declared_default f i =
     (case func_defaults f of
        None \<Rightarrow> None
      | Some ds \<Rightarrow>
          if i < length (func_args f) \<and> length (func_args f) \<le> i + length ds
          then Some (ds ! (i + length ds - length (func_args f)))
          else None)"

section \<open>Properties\<close>

subsection \<open>Running the decorator, and reading its result\<close>

lemmas run_defs = decorated_def compile_setting_def compile_none_def compile_one_def
  compile_many_def args_of_def Nparams_def Nrequired_def Noptional_def lifted_def isGenerator_def
  sample_method_def plain_def_def sample_env_def slice_from_def slice_to_def range_down_def
  parse_tags_def parse_tag_def params_get_def check_first_arg_def check_empty_first_def
  make_groups_def lists_for_def compile_group_def type_and_string_def defaults_note_def
  all_defaults_note_def default_at_def accepts_of_def unpack_of_def accepted_types_def
  unpack_none_def unpack_one_optional_def unpack_direct_def unpack_many_def
  unpack_many_optional_def bind_positional_def declared_default_def upto.simps

lemma ebind_Inr_iff: "ebind m k = Inr y \<longleftrightarrow> (\<exists>x. m = Inr x \<and> k x = Inr y)"
  by (cases m) auto

lemma ebind_isl_iff: "isl (ebind m k) \<longleftrightarrow> isl m \<or> (\<exists>x. m = Inr x \<and> isl (k x))"
  by (cases m) auto

lemma decorated_Inr:
  assumes "decorated E lr_ID lr_name rets lr_num_params params f = Inr r"
  shows "\<exists>ts. compile_setting E lr_num_params params f = Inr (accepts r, ts, unpack r)
           \<and> func r = lifted E f"
  using assms unfolding decorated_def by (auto simp: ebind_Inr_iff)

lemma isl_decorated:
  "isl (decorated E lr_ID lr_name rets lr_num_params params f)
     \<longleftrightarrow> isl (compile_setting E lr_num_params params f)"
  unfolding decorated_def by (cases "compile_setting E lr_num_params params f") auto

lemma accepted_types_compiled:
  "compile_setting E lr_num_params params f = Inr (as, ts, u)
     \<Longrightarrow> accepted_types E lr_num_params params f = Inr ts"
  by (simp add: accepted_types_def)

lemma compile_setting_none:
  assumes "Nparams lr_num_params f = 0"
      and "compile_setting E lr_num_params params f = Inr (as, ts, u)"
  shows "compile_none E (lifted E f) = Inr (as, ts, u)"
  using assms unfolding compile_setting_def by (auto simp: ebind_Inr_iff Let_def)

lemma compile_setting_one:
  assumes "Nparams lr_num_params f = 1"
      and "compile_setting E lr_num_params params f = Inr (as, ts, u)"
  shows "compile_one E params (args_of lr_num_params f) (func_defaults f)
           (Nrequired lr_num_params f) (lifted E f) = Inr (as, ts, u)"
  using assms unfolding compile_setting_def by (auto simp: ebind_Inr_iff Let_def)

lemma compile_setting_many:
  assumes "2 \<le> Nparams lr_num_params f"
      and "compile_setting E lr_num_params params f = Inr (as, ts, u)"
  shows "compile_many E params (args_of lr_num_params f) (func_defaults f)
           (Nparams lr_num_params f) (Nrequired lr_num_params f) (lifted E f) = Inr (as, ts, u)"
  using assms unfolding compile_setting_def by (auto simp: ebind_Inr_iff Let_def)

lemma compile_many_unpack:
  assumes "compile_many E params args defaults Npar Nreq call = Inr (as, ts, u)"
  shows "u = (if Nreq = 0 then unpack_many_optional call else unpack_many call)"
  using assms unfolding compile_many_def
  by (auto simp: ebind_Inr_iff Let_def split: if_splits)

subsection \<open>The cartesian product\<close>

lemma product_length: "length (product ls) = prod_list (map length ls)"
  by (induction ls) (simp_all add: length_concat comp_def sum_list_triv)

lemma product_member:
  "xs \<in> set (product ls) \<longleftrightarrow> list_all2 (\<lambda>x l. x \<in> set l) xs ls"
proof (induction ls arbitrary: xs)
  case Nil
  then show ?case by simp
next
  case (Cons l ls)
  show ?case
  proof (cases xs)
    case Nil
    then show ?thesis by auto
  next
    case (Cons y ys)
    with Cons.IH[of ys] show ?thesis by auto
  qed
qed

lemma concat_map_nth:
  assumes "\<And>h. length (g h) = m" and "i < length l" and "j < m"
  shows "concat (map g l) ! (i * m + j) = g (l ! i) ! j"
  using assms(2)
proof (induction l arbitrary: i)
  case Nil
  then show ?case by simp
next
  case (Cons x l)
  show ?case
  proof (cases i)
    case 0
    with assms(1,3) show ?thesis by (simp add: nth_append)
  next
    case (Suc k)
    with Cons.prems have "k < length l" by simp
    from Cons.IH[OF this] Suc assms(1)[of x] show ?thesis
      by (simp add: nth_append add.assoc)
  qed
qed

lemma product_Cons: "product (l # ls) = concat (map (\<lambda>h. map ((#) h) (product ls)) l)"
proof -
  have "(@) [h] = (#) h" for h :: 'a by (rule ext) simp
  then show ?thesis by simp
qed

lemma product_nth:
  assumes "i < length l" and "j < length (product ls)"
  shows "product (l # ls) ! (i * length (product ls) + j) = l ! i # product ls ! j"
proof -
  have "concat (map (\<lambda>h. map ((#) h) (product ls)) l) ! (i * length (product ls) + j)
          = map ((#) (l ! i)) (product ls) ! j"
    by (rule concat_map_nth) (simp_all add: assms)
  then show ?thesis using assms(2) unfolding product_Cons by simp
qed

text \<open>
  C7: \<^verbatim>\<open>_product\<close> of no lists is the one empty combination, and of \<open>[[a, b], [c]]\<close> it is
  \<open>[[a, c], [b, c]]\<close>, in this order. In general the combinations are exactly the lists that
  take one element of each position in the order of the positions, there are as many as the
  product of the lengths, and the candidates of the first position are enumerated outermost:
  combination number \<open>i * length (product ls) + j\<close> of \<open>l # ls\<close> is candidate \<open>i\<close> of \<open>l\<close>
  before combination \<open>j\<close> of \<open>ls\<close>.
\<close>

theorem product_base_and_example:
  "product ([] :: 'a list list) = [[]]
   \<and> product [[a, b], [c]] = [[a, c], [b, c]]
   \<and> product [[a, b], [c, d]] = [[a, c], [a, d], [b, c], [b, d]]
   \<and> length (product ls) = prod_list (map length ls)
   \<and> (xs \<in> set (product ls) \<longleftrightarrow> list_all2 (\<lambda>x l. x \<in> set l) xs ls)
   \<and> (i < length l \<and> j < length (product ls)
        \<longrightarrow> product (l # ls) ! (i * length (product ls) + j) = l ! i # product ls ! j)"
proof -
  have "product ([] :: 'a list list) = [[]]"
    and "product [[a, b], [c]] = [[a, c], [b, c]]"
    and "product [[a, b], [c, d]] = [[a, c], [a, d], [b, c], [b, d]]"
    by simp_all
  with product_length[of ls] product_member[of xs ls] product_nth[of i l j ls]
  show ?thesis by blast
qed

theorem product_base_and_example_witness:
  "(1::nat) < length [10, 20 :: nat] \<and> (0::nat) < length (product [[30, 40 :: nat], [50]])
   \<and> product [[10, 20], [30, 40 :: nat], [50]] ! 2 = [20, 30, 50]
   \<and> product [[10, 20], [30, 40 :: nat], [50]]
      = [[10, 30, 50], [10, 40, 50], [20, 30, 50], [20, 40, 50]]"
proof -
  have l: "length (product [[30, 40 :: nat], [50]]) = 2" by simp
  have p: "product [[30, 40 :: nat], [50]] ! 0 = [30, 50]" by simp
  from product_base_and_example[of _ _ _ _ "[[30, 40 :: nat], [50]]" _ 1 "[10, 20]" 0,
      THEN conjunct2, THEN conjunct2, THEN conjunct2, THEN conjunct2, THEN conjunct2]
  have "product [[10, 20], [30, 40 :: nat], [50]] ! (1 * length (product [[30, 40 :: nat], [50]]) + 0)
          = [10, 20] ! 1 # product [[30, 40 :: nat], [50]] ! 0"
    by simp
  then have "product [[10, 20], [30, 40 :: nat], [50]] ! 2 = [20, 30, 50]"
    by (simp only: l p) simp
  then show ?thesis by simp
qed

subsection \<open>Methods without parameters\<close>

text \<open>
  C9, as the code has it: for a registered method with \<open>Nparams = 0\<close> the list of accepted
  strings has exactly one entry, the empty tag \<^verbatim>\<open>''\<close> (not the text "no arguments"); its
  descriptor is what the parser gives for the empty tag, the no-argument descriptor; and
  \<^verbatim>\<open>unpack\<close> calls the method on \<^verbatim>\<open>self\<close> and \<^verbatim>\<open>c\<close> only, whatever the payload.
\<close>

theorem no_params_setting:
  assumes "Nparams lr_num_params f = 0"
      and "parseTypeTag E [] = Some LRNone"
      and "decorated E lr_ID lr_name rets lr_num_params params f = Inr r"
  shows "accepts r = [[]]
         \<and> accepted_types E lr_num_params params f = Inr [LRNone]
         \<and> unpack r self c data = lifted E f [self, c]"
proof -
  from decorated_Inr[OF assms(3)] obtain ts where
    cs: "compile_setting E lr_num_params params f = Inr (accepts r, ts, unpack r)" by blast
  from compile_setting_none[OF assms(1) cs] assms(2)
  have "accepts r = [[]]" and "ts = [LRNone]" and "unpack r = unpack_none (lifted E f)"
    by (auto simp: compile_none_def parse_tags_def parse_tag_def ebind_Inr_iff Let_def)
  with accepted_types_compiled[OF cs] show ?thesis
    by (simp add: unpack_none_def)
qed

theorem no_params_setting_witness:
  "Nparams 2 (sample_method [] None) = 0
   \<and> parseTypeTag sample_env [] = Some LRNone
   \<and> accepts_of (decorated sample_env 1 None [] 2 [] (sample_method [] None)) = Inr [[]]
   \<and> accepted_types sample_env 2 [] (sample_method [] None) = Inr [LRNone]
   \<and> unpack_of (decorated sample_env 1 None [] 2 [] (sample_method [] None))
        (PyAtom ''self'') (PyAtom ''ctx'') (PyTuple [PyAtom ''1'', PyAtom ''2''])
      = Inr [PyAtom ''self'', PyAtom ''ctx'']"
proof -
  obtain r where r: "decorated sample_env 1 None [] 2 [] (sample_method [] None) = Inr r"
    by (simp add: run_defs)
  have n: "Nparams 2 (sample_method [] None) = 0" by (simp add: run_defs)
  have p: "parseTypeTag sample_env [] = Some LRNone" by (simp add: run_defs)
  have l: "lifted sample_env (sample_method [] None) [PyAtom ''self'', PyAtom ''ctx'']
             = Inr [PyAtom ''self'', PyAtom ''ctx'']"
    by (simp add: run_defs)
  from no_params_setting[OF n p r, of "PyAtom ''self''" "PyAtom ''ctx''"
      "PyTuple [PyAtom ''1'', PyAtom ''2'']"] n p l
  show ?thesis by (simp add: r accepts_of_def unpack_of_def)
qed

theorem no_params_display_counterexample:
  "Nparams 2 (sample_method [] None) = 0
   \<and> accepts_of (decorated sample_env 1 None [] 2 [] (sample_method [] None)) = Inr [[]]
   \<and> accepts_of (decorated sample_env 1 None [] 2 [] (sample_method [] None))
       \<noteq> Inr [''no arguments'']"
  by (simp add: run_defs)

subsection \<open>\<^verbatim>\<open>unpack\<close> for two parameters or more\<close>

text \<open>
  C8: for a registered method with \<open>Nparams \<ge> 2\<close>, \<^verbatim>\<open>unpack\<close> calls the method on
  \<^verbatim>\<open>self\<close>, \<^verbatim>\<open>c\<close> and the elements of a tuple payload; on \<^verbatim>\<open>self\<close> and \<^verbatim>\<open>c\<close> only
  when the payload is \<^verbatim>\<open>None\<close> and \<open>Nrequired = 0\<close>; and on \<^verbatim>\<open>self\<close>, \<^verbatim>\<open>c\<close> and the
  payload itself in every other case. When the method is a plain \<^verbatim>\<open>def\<close> and the tuple is
  short, the parameters the tuple does not reach take their defaults.
\<close>

theorem unpack_many_params:
  assumes "2 \<le> Nparams lr_num_params f"
      and "decorated E lr_ID lr_name rets lr_num_params params f = Inr r"
  shows "unpack r self c (PyTuple xs) = lifted E f ([self, c] @ xs)
         \<and> (Nrequired lr_num_params f = 0 \<longrightarrow> unpack r self c PyNone = lifted E f [self, c])
         \<and> (\<not> is_tuple data \<and> (data = PyNone \<longrightarrow> Nrequired lr_num_params f \<noteq> 0)
              \<longrightarrow> unpack r self c data = lifted E f [self, c, data])
         \<and> (f = plain_def names (Some ds) body \<and> length xs + 2 \<le> length names
              \<and> length names \<le> length xs + 2 + length ds
              \<longrightarrow> unpack r self c (PyTuple xs)
                    = Inr (body ([self, c] @ xs @ drop (length xs + 2 + length ds - length names) ds)))"
proof -
  from decorated_Inr[OF assms(2)] obtain ts where
    cs: "compile_setting E lr_num_params params f = Inr (accepts r, ts, unpack r)" by blast
  from compile_many_unpack[OF compile_setting_many[OF assms(1) cs]]
  have u: "unpack r = (if Nrequired lr_num_params f = 0 then unpack_many_optional (lifted E f)
                       else unpack_many (lifted E f))" .
  have a: "unpack r self c (PyTuple xs) = lifted E f ([self, c] @ xs)"
    by (simp add: u unpack_many_def unpack_many_optional_def)
  have b: "Nrequired lr_num_params f = 0 \<longrightarrow> unpack r self c PyNone = lifted E f [self, c]"
    by (simp add: u unpack_many_optional_def)
  have c: "\<not> is_tuple data \<and> (data = PyNone \<longrightarrow> Nrequired lr_num_params f \<noteq> 0)
             \<longrightarrow> unpack r self c data = lifted E f [self, c, data]"
    by (cases data) (simp_all add: u unpack_many_def unpack_many_optional_def)
  have d: "f = plain_def names (Some ds) body \<and> length xs + 2 \<le> length names
              \<and> length names \<le> length xs + 2 + length ds
              \<longrightarrow> unpack r self c (PyTuple xs)
                    = Inr (body ([self, c] @ xs @ drop (length xs + 2 + length ds - length names) ds))"
    by (auto simp: a lifted_def isGenerator_def plain_def_def bind_positional_def)
  from a b c d show ?thesis by blast
qed

theorem unpack_many_params_witness:
  "2 \<le> Nparams 2 (sample_method [''a'', ''b'', ''d''] (Some [PyAtom ''1'', PyAtom ''2'']))
   \<and> unpack_of (decorated sample_env 1 None [] 2 [(''a'', [''s''])]
         (sample_method [''a'', ''b'', ''d''] (Some [PyAtom ''1'', PyAtom ''2''])))
        (PyAtom ''self'') (PyAtom ''ctx'') (PyTuple [PyAtom ''x'', PyAtom ''y''])
      = Inr [PyAtom ''self'', PyAtom ''ctx'', PyAtom ''x'', PyAtom ''y'', PyAtom ''2'']
   \<and> Nrequired 2 (sample_method [''a'', ''b''] (Some [PyAtom ''1'', PyAtom ''2''])) = 0
   \<and> unpack_of (decorated sample_env 1 None [] 2 [(''a'', [''s''])]
         (sample_method [''a'', ''b''] (Some [PyAtom ''1'', PyAtom ''2''])))
        (PyAtom ''self'') (PyAtom ''ctx'') PyNone
      = Inr [PyAtom ''self'', PyAtom ''ctx'', PyAtom ''1'', PyAtom ''2'']
   \<and> unpack_of (decorated sample_env 1 None [] 2 [(''a'', [''s''])]
         (sample_method [''a'', ''b''] (Some [PyAtom ''1'', PyAtom ''2''])))
        (PyAtom ''self'') (PyAtom ''ctx'') (PyAtom ''x'')
      = Inr [PyAtom ''self'', PyAtom ''ctx'', PyAtom ''x'', PyAtom ''2'']"
proof -
  let ?m = "sample_method [''a'', ''b'', ''d''] (Some [PyAtom ''1'', PyAtom ''2''])"
  let ?k = "sample_method [''a'', ''b''] (Some [PyAtom ''1'', PyAtom ''2''])"
  obtain r where r: "decorated sample_env 1 None [] 2 [(''a'', [''s''])] ?m = Inr r"
    by (simp add: run_defs)
  obtain q where q: "decorated sample_env 1 None [] 2 [(''a'', [''s''])] ?k = Inr q"
    by (simp add: run_defs)
  have n: "2 \<le> Nparams 2 ?m" and n': "2 \<le> Nparams 2 ?k" and z: "Nrequired 2 ?k = 0"
    by (simp_all add: run_defs)
  have pd: "?m = plain_def [''self'', ''c'', ''a'', ''b'', ''d''] (Some [PyAtom ''1'', PyAtom ''2''])
                   (\<lambda>bound. bound)"
    by (simp add: sample_method_def)
  have l1: "lifted sample_env ?k [PyAtom ''self'', PyAtom ''ctx'']
             = Inr [PyAtom ''self'', PyAtom ''ctx'', PyAtom ''1'', PyAtom ''2'']"
    and l2: "lifted sample_env ?k [PyAtom ''self'', PyAtom ''ctx'', PyAtom ''x'']
             = Inr [PyAtom ''self'', PyAtom ''ctx'', PyAtom ''x'', PyAtom ''2'']"
    by (simp_all add: run_defs)
  from unpack_many_params[OF n r, of "PyAtom ''self''" "PyAtom ''ctx''"
      "[PyAtom ''x'', PyAtom ''y'']" PyNone "[''self'', ''c'', ''a'', ''b'', ''d'']"
      "[PyAtom ''1'', PyAtom ''2'']" "\<lambda>bound. bound",
      THEN conjunct2, THEN conjunct2, THEN conjunct2] pd
  have t: "unpack r (PyAtom ''self'') (PyAtom ''ctx'') (PyTuple [PyAtom ''x'', PyAtom ''y''])
           = Inr [PyAtom ''self'', PyAtom ''ctx'', PyAtom ''x'', PyAtom ''y'', PyAtom ''2'']"
    by simp
  from unpack_many_params[OF n' q, of "PyAtom ''self''" "PyAtom ''ctx''" "[]" "PyAtom ''x''"] z l1 l2
  have s: "unpack q (PyAtom ''self'') (PyAtom ''ctx'') PyNone
             = Inr [PyAtom ''self'', PyAtom ''ctx'', PyAtom ''1'', PyAtom ''2'']"
    and s': "unpack q (PyAtom ''self'') (PyAtom ''ctx'') (PyAtom ''x'')
             = Inr [PyAtom ''self'', PyAtom ''ctx'', PyAtom ''x'', PyAtom ''2'']"
    by simp_all
  from n z t s s' show ?thesis by (simp add: r q unpack_of_def)
qed

text \<open>
  C10: for a registered method with \<open>Nparams \<ge> 2\<close> and \<open>Nrequired \<ge> 1\<close>, \<^verbatim>\<open>unpack\<close> does
  not reject a \<^verbatim>\<open>None\<close> payload: its result is the result of calling the method on
  \<^verbatim>\<open>self\<close>, \<^verbatim>\<open>c\<close> and \<^verbatim>\<open>None\<close>, as for any other payload that is not a tuple.
\<close>

theorem none_forwarded_as_scalar:
  assumes "2 \<le> Nparams lr_num_params f"
      and "1 \<le> Nrequired lr_num_params f"
      and "decorated E lr_ID lr_name rets lr_num_params params f = Inr r"
  shows "unpack r self c PyNone = lifted E f [self, c, PyNone]
         \<and> unpack r self c (PyAtom a) = lifted E f [self, c, PyAtom a]"
proof -
  from decorated_Inr[OF assms(3)] obtain ts where
    cs: "compile_setting E lr_num_params params f = Inr (accepts r, ts, unpack r)" by blast
  from compile_many_unpack[OF compile_setting_many[OF assms(1) cs]] assms(2)
  have "unpack r = unpack_many (lifted E f)" by simp
  then show ?thesis by (simp add: unpack_many_def)
qed

theorem none_forwarded_as_scalar_witness:
  "2 \<le> Nparams 2 (sample_method [''a'', ''b''] (Some [PyAtom ''0'']))
   \<and> 1 \<le> Nrequired 2 (sample_method [''a'', ''b''] (Some [PyAtom ''0'']))
   \<and> unpack_of (decorated sample_env 1 None [] 2 [(''a'', [''s'']), (''b'', [''i''])]
         (sample_method [''a'', ''b''] (Some [PyAtom ''0''])))
        (PyAtom ''self'') (PyAtom ''ctx'') PyNone
      = Inr [PyAtom ''self'', PyAtom ''ctx'', PyNone, PyAtom ''0'']"
proof -
  let ?m = "sample_method [''a'', ''b''] (Some [PyAtom ''0''])"
  obtain r where
    r: "decorated sample_env 1 None [] 2 [(''a'', [''s'']), (''b'', [''i''])] ?m = Inr r"
    by (simp add: run_defs)
  have n: "2 \<le> Nparams 2 ?m" and q: "1 \<le> Nrequired 2 ?m"
    by (simp_all add: run_defs)
  have l: "lifted sample_env ?m [PyAtom ''self'', PyAtom ''ctx'', PyNone]
             = Inr [PyAtom ''self'', PyAtom ''ctx'', PyNone, PyAtom ''0'']"
    by (simp add: run_defs)
  from none_forwarded_as_scalar[OF n q r, of "PyAtom ''self''" "PyAtom ''ctx''"] n q l
  show ?thesis by (simp add: r unpack_of_def)
qed

subsection \<open>Where errors come from\<close>

lemma ebind_Inl_iff: "ebind m k = Inl e \<longleftrightarrow> m = Inl e \<or> (\<exists>x. m = Inr x \<and> k x = Inl e)"
  by (cases m) auto

lemma emap_Inl: "emap h xs = Inl e \<Longrightarrow> \<exists>x\<in>set xs. h x = Inl e"
  by (induction xs) (auto simp: ebind_Inl_iff)

lemma emap_isl: "x \<in> set xs \<Longrightarrow> isl (h x) \<Longrightarrow> isl (emap h xs)"
  by (induction xs) (auto simp: ebind_isl_iff, (metis sum.collapse(2))+)

lemma emap_Inr_length: "emap h xs = Inr ys \<Longrightarrow> length ys = length xs"
  by (induction xs arbitrary: ys) (auto simp: ebind_Inr_iff)

lemma parse_tag_Inl: "parse_tag E s = Inl e \<Longrightarrow> e = TagSyntaxError s"
  by (auto simp: parse_tag_def split: option.splits)

lemma parse_tags_Inl: "parse_tags E tags = Inl e \<Longrightarrow> \<exists>s. e = TagSyntaxError s"
  unfolding parse_tags_def by (blast dest: emap_Inl parse_tag_Inl)

lemma parse_tags_Inr: "parse_tags E tags = Inr ts \<Longrightarrow> map (parseTypeTag E) tags = map Some ts"
  unfolding parse_tags_def
  by (induction tags arbitrary: ts)
     (auto simp: ebind_Inr_iff parse_tag_def split: option.splits)

lemma parse_tags_mem:
  assumes "parse_tags E tags = Inr ts" and "s \<in> set tags" and "parseTypeTag E s = Some t"
  shows "t \<in> set ts"
proof -
  from assms(2,3) have "Some t \<in> set (map (parseTypeTag E) tags)" by force
  with parse_tags_Inr[OF assms(1)] show ?thesis by auto
qed

lemma check_params_Inl: "check_params params args = Inl e \<Longrightarrow> \<exists>p. e = NotAValidParameter p"
  by (induction params args rule: check_params.induct) (auto split: if_splits)

lemma check_first_types_Inr:
  "check_first_types E tags = Inr u \<Longrightarrow> s \<in> set tags \<Longrightarrow> parseTypeTag E s = Some t
     \<Longrightarrow> \<not> is_any_or_cluster t"
  by (induction tags) (auto simp: ebind_Inr_iff parse_tag_def split: option.splits if_splits)

lemma check_first_types_Inl:
  "check_first_types E tags = Inl e \<Longrightarrow>
     (\<exists>s. e = TagSyntaxError s)
     \<or> (e = ClusterOrAnyInFirstArg
        \<and> (\<exists>s\<in>set tags. \<exists>t. parseTypeTag E s = Some t \<and> is_any_or_cluster t))"
  by (induction tags)
     (auto simp: ebind_Inl_iff parse_tag_def split: option.splits if_splits)

lemma check_empty_first_Inl:
  "check_empty_first E params args Nreq = Inl e
     \<Longrightarrow> e \<noteq> MustSpecifyTypesForFirstArg \<and> e \<noteq> ClusterOrAnyInFirstArg"
  unfolding check_empty_first_def
  by (auto simp: ebind_Inl_iff split: if_splits dest: parse_tags_Inl)

lemma check_later_args_Inl:
  "check_later_args E params ps = Inl e
     \<Longrightarrow> e \<noteq> MustSpecifyTypesForFirstArg \<and> e \<noteq> ClusterOrAnyInFirstArg"
  by (induction ps) (auto simp: ebind_Inl_iff split: if_splits dest: parse_tags_Inl)

lemma default_at_Inl: "default_at defaults k = Inl e \<Longrightarrow> e = TypeError \<or> e = IndexError"
  by (auto simp: default_at_def split: option.splits if_splits)

lemma defaults_note_Inl:
  "defaults_note E args defaults g Npar = Inl e \<Longrightarrow> e = TypeError \<or> e = IndexError"
  unfolding defaults_note_def
  by (auto simp: ebind_Inl_iff dest!: emap_Inl dest: default_at_Inl)

lemma type_and_string_Inl:
  "type_and_string E args grp = Inl e
     \<Longrightarrow> e \<noteq> MustSpecifyTypesForFirstArg \<and> e \<noteq> ClusterOrAnyInFirstArg"
  unfolding type_and_string_def
  by (auto simp: ebind_Inl_iff split: if_splits list.splits dest: parse_tags_Inl parse_tag_Inl)

lemma compile_group_Inl:
  "compile_group E args defaults Npar grp = Inl e
     \<Longrightarrow> e \<noteq> MustSpecifyTypesForFirstArg \<and> e \<noteq> ClusterOrAnyInFirstArg"
  unfolding compile_group_def
  by (auto simp: ebind_Inl_iff split: if_splits dest: type_and_string_Inl defaults_note_Inl)

lemma all_defaults_note_Inl: "all_defaults_note E args defaults = Inl e \<Longrightarrow> e = TypeError"
  by (auto simp: all_defaults_note_def split: option.splits)



lemma compile_many_Inl:
  assumes "compile_many E params args defaults Npar Nreq call = Inl e"
  shows "check_first_arg E params args Nreq = Inl e
         \<or> (e \<noteq> MustSpecifyTypesForFirstArg \<and> e \<noteq> ClusterOrAnyInFirstArg)"
proof (cases "check_first_arg E params args Nreq")
  case (Inl e1)
  with assms show ?thesis by (simp add: compile_many_def)
next
  case c1: (Inr u1)
  show ?thesis
  proof (cases "check_empty_first E params args Nreq")
    case (Inl e2)
    with assms c1 have "e = e2" by (simp add: compile_many_def)
    with check_empty_first_Inl[OF Inl] show ?thesis by simp
  next
    case c2: (Inr u2)
    show ?thesis
    proof (cases "check_later_args E params (drop 1 args)")
      case (Inl e3)
      with assms c1 c2 have "e = e3" by (simp add: compile_many_def)
      with check_later_args_Inl[OF Inl] show ?thesis by simp
    next
      case c3: (Inr u3)
      show ?thesis
      proof (cases "emap (compile_group E args defaults Npar) (make_groups params args Npar Nreq)")
        case (Inl e4)
        with assms c1 c2 c3 have "e = e4" by (simp add: compile_many_def)
        moreover from emap_Inl[OF Inl] obtain g where
          "compile_group E args defaults Npar g = Inl e4" by blast
        ultimately show ?thesis using compile_group_Inl by blast
      next
        case c4: (Inr ts)
        with assms c1 c2 c3 have "all_defaults_note E args defaults = Inl e"
          by (simp add: compile_many_def Let_def ebind_Inl_iff split: if_splits)
        from all_defaults_note_Inl[OF this] show ?thesis by simp
      qed
    qed
  qed
qed

lemma compile_many_checks:
  assumes "compile_many E params args defaults Npar Nreq call = Inr x"
  shows "check_first_arg E params args Nreq = Inr ()
         \<and> check_empty_first E params args Nreq = Inr ()
         \<and> check_later_args E params (drop 1 args) = Inr ()
         \<and> (\<exists>ts. emap (compile_group E args defaults Npar) (make_groups params args Npar Nreq)
                   = Inr ts)"
proof -
  from assms obtain u1 u2 u3 ts where
    "check_first_arg E params args Nreq = Inr u1"
    "check_empty_first E params args Nreq = Inr u2"
    "check_later_args E params (drop 1 args) = Inr u3"
    "emap (compile_group E args defaults Npar) (make_groups params args Npar Nreq) = Inr ts"
    unfolding compile_many_def ebind_Inr_iff by blast
  then show ?thesis by simp
qed

lemma compile_setting_Inl_many:
  assumes "2 \<le> Nparams lr_num_params f"
      and "compile_setting E lr_num_params params f = Inl e"
  shows "(\<exists>p. e = NotAValidParameter p)
         \<or> compile_many E params (args_of lr_num_params f) (func_defaults f)
              (Nparams lr_num_params f) (Nrequired lr_num_params f) (lifted E f) = Inl e"
proof (cases "check_params params (args_of lr_num_params f)")
  case (Inl e1)
  with assms(2) have "e = e1" by (simp add: compile_setting_def Let_def)
  with check_params_Inl[OF Inl] show ?thesis by simp
next
  case (Inr u)
  with assms show ?thesis by (simp add: compile_setting_def Let_def)
qed

lemma decorated_Inl:
  "decorated E lr_ID lr_name rets lr_num_params params f = Inl e
     \<longleftrightarrow> compile_setting E lr_num_params params f = Inl e"
  unfolding decorated_def by (cases "compile_setting E lr_num_params params f") auto


subsection \<open>The first argument when fewer than two are required\<close>

text \<open>
  C6: for a method with \<open>Nparams \<ge> 2\<close> and \<open>Nrequired \<le> 1\<close>, registration fails unless the
  first parameter has a declared list of tags none of which parses to the wildcard or to a
  cluster; and when it has such a list, registration does not fail with either of the two
  errors of this check.
\<close>

theorem first_arg_rule:
  assumes "2 \<le> Nparams lr_num_params f"
      and "Nrequired lr_num_params f \<le> 1"
  shows "(\<not> (\<exists>tags. map_of params (args_of lr_num_params f ! 0) = Some tags
                \<and> (\<forall>s\<in>set tags. \<forall>t. parseTypeTag E s = Some t \<longrightarrow> \<not> is_any_or_cluster t))
            \<longrightarrow> isl (decorated E lr_ID lr_name rets lr_num_params params f))
         \<and> ((\<exists>tags. map_of params (args_of lr_num_params f ! 0) = Some tags
                \<and> (\<forall>s\<in>set tags. \<forall>t. parseTypeTag E s = Some t \<longrightarrow> \<not> is_any_or_cluster t))
            \<longrightarrow> decorated E lr_ID lr_name rets lr_num_params params f
                  \<noteq> Inl MustSpecifyTypesForFirstArg
                \<and> decorated E lr_ID lr_name rets lr_num_params params f
                  \<noteq> Inl ClusterOrAnyInFirstArg)"
proof -
  let ?good = "\<exists>tags. map_of params (args_of lr_num_params f ! 0) = Some tags
                \<and> (\<forall>s\<in>set tags. \<forall>t. parseTypeTag E s = Some t \<longrightarrow> \<not> is_any_or_cluster t)"
  let ?args = "args_of lr_num_params f"
  let ?Nreq = "Nrequired lr_num_params f"
  let ?res = "decorated E lr_ID lr_name rets lr_num_params params f"
  have fails: "isl ?res" if bad: "\<not> ?good"
  proof (cases "compile_setting E lr_num_params params f")
    case (Inl e)
    then show ?thesis by (simp add: isl_decorated)
  next
    case (Inr x)
    then obtain as ts u where
      "compile_setting E lr_num_params params f = Inr (as, ts, u)" by (cases x) auto
    from compile_many_checks[OF compile_setting_many[OF assms(1) this]]
    have "check_first_arg E params ?args ?Nreq = Inr ()" by blast
    with assms(2) obtain tags where m: "map_of params (?args ! 0) = Some tags"
      and c: "check_first_types E tags = Inr ()"
      by (auto simp: check_first_arg_def split: option.splits)
    from check_first_types_Inr[OF c] m have ?good by blast
    with bad show ?thesis by blast
  qed
  have no: "?res \<noteq> Inl e"
    if good: ?good and e: "e = MustSpecifyTypesForFirstArg \<or> e = ClusterOrAnyInFirstArg" for e
  proof
    from good obtain tags where m: "map_of params (?args ! 0) = Some tags"
      and ok: "\<forall>s\<in>set tags. \<forall>t. parseTypeTag E s = Some t \<longrightarrow> \<not> is_any_or_cluster t"
      by blast
    assume "?res = Inl e"
    then have "compile_setting E lr_num_params params f = Inl e"
      by (simp add: decorated_Inl)
    from compile_setting_Inl_many[OF assms(1) this] e
    have "compile_many E params ?args (func_defaults f) (Nparams lr_num_params f) ?Nreq
            (lifted E f) = Inl e" by auto
    from compile_many_Inl[OF this] e
    have "check_first_arg E params ?args ?Nreq = Inl e" by blast
    with assms(2) m have "check_first_types E tags = Inl e"
      by (simp add: check_first_arg_def)
    from check_first_types_Inl[OF this] e ok show False by auto
  qed
  from fails no show ?thesis by blast
qed

theorem first_arg_rule_witness:
  "2 \<le> Nparams 2 (sample_method [''a'', ''b''] (Some [PyAtom ''1'', PyAtom ''2'']))
   \<and> Nrequired 2 (sample_method [''a'', ''b''] (Some [PyAtom ''1'', PyAtom ''2''])) \<le> 1
   \<and> isl (decorated sample_env 1 None [] 2 [(''a'', [''?''])]
           (sample_method [''a'', ''b''] (Some [PyAtom ''1'', PyAtom ''2''])))
   \<and> isl (decorated sample_env 1 None [] 2 []
           (sample_method [''a'', ''b''] (Some [PyAtom ''1'', PyAtom ''2''])))
   \<and> decorated sample_env 1 None [] 2 [(''a'', [''s''])]
        (sample_method [''a'', ''b''] (Some [PyAtom ''1'', PyAtom ''2'']))
       \<noteq> Inl MustSpecifyTypesForFirstArg
   \<and> decorated sample_env 1 None [] 2 [(''a'', [''s''])]
        (sample_method [''a'', ''b''] (Some [PyAtom ''1'', PyAtom ''2'']))
       \<noteq> Inl ClusterOrAnyInFirstArg"
proof -
  let ?m = "sample_method [''a'', ''b''] (Some [PyAtom ''1'', PyAtom ''2''])"
  have n: "2 \<le> Nparams 2 ?m" and q: "Nrequired 2 ?m \<le> 1"
    by (simp_all add: run_defs)
  have a0: "args_of 2 ?m ! 0 = ''a''" by (simp add: run_defs)
  have p1: "parseTypeTag sample_env ''?'' = Some LRAny"
    and p2: "parseTypeTag sample_env ''s'' = Some (LROther ''s'')"
    by (simp_all add: run_defs)
  from first_arg_rule[OF n q, of "[(''a'', [''?''])]" sample_env 1 None "[]"] a0 p1
  have w1: "isl (decorated sample_env 1 None [] 2 [(''a'', [''?''])] ?m)" by simp
  from first_arg_rule[OF n q, of "[]" sample_env 1 None "[]"] a0
  have w2: "isl (decorated sample_env 1 None [] 2 [] ?m)" by simp
  from first_arg_rule[OF n q, of "[(''a'', [''s''])]" sample_env 1 None "[]"] a0 p2
  have w3: "decorated sample_env 1 None [] 2 [(''a'', [''s''])] ?m \<noteq> Inl MustSpecifyTypesForFirstArg
            \<and> decorated sample_env 1 None [] 2 [(''a'', [''s''])] ?m \<noteq> Inl ClusterOrAnyInFirstArg"
    by simp
  from n q w1 w2 w3 show ?thesis by blast
qed

subsection \<open>One optional parameter\<close>

lemma parse_tags_origin:
  assumes "parse_tags E tags = Inr ts" and "t \<in> set ts"
  shows "\<exists>s\<in>set tags. parseTypeTag E s = Some t"
proof -
  from assms(2) have "Some t \<in> set (map Some ts)" by simp
  with parse_tags_Inr[OF assms(1)] have "Some t \<in> set (map (parseTypeTag E) tags)" by simp
  then show ?thesis by auto
qed

lemma parse_tags_length: "parse_tags E tags = Inr ts \<Longrightarrow> length ts = length tags"
  unfolding parse_tags_def by (rule emap_Inr_length)

lemma slice_from_single:
  assumes "length (slice_from xs n) = 1"
  shows "slice_from xs n = [xs ! (length xs - 1)]"
proof -
  have "\<exists>k. slice_from xs n = drop k xs" unfolding slice_from_def by (cases "0 \<le> n") auto
  then obtain k where k: "slice_from xs n = drop k xs" by blast
  with assms have "k < length xs" and "Suc k = length xs" by auto
  then have "drop k xs = [xs ! k]" and "k = length xs - 1"
    by (simp_all flip: Cons_nth_drop_Suc)
  with k show ?thesis by simp
qed

text \<open>
  C4, as the code has it: for a registered method with \<open>Nparams = 1\<close> and \<open>Nrequired = 0\<close>
  whose declared list of tags is not empty and has no tag parsing to the no-argument
  descriptor, the accepted strings are the declared tags followed by exactly one more entry,
  \<^verbatim>\<open>: defaults [name=default]\<close> with the declared default of the parameter, and the
  accepted descriptors are those of the tags followed by the no-argument descriptor.
\<close>

theorem one_optional_param_gains_none:
  assumes "Nparams lr_num_params f = 1"
      and "Nrequired lr_num_params f = 0"
      and "params_get params (args_of lr_num_params f ! 0) [] \<noteq> []"
      and "\<forall>s\<in>set (params_get params (args_of lr_num_params f ! 0) []).
             parseTypeTag E s \<noteq> Some LRNone"
      and "decorated E lr_ID lr_name rets lr_num_params params f = Inr r"
  shows "\<exists>d ts. declared_default f (length (func_args f) - 1) = Some d
           \<and> args_of lr_num_params f = [func_args f ! (length (func_args f) - 1)]
           \<and> parse_tags E (params_get params (args_of lr_num_params f ! 0) []) = Inr ts
           \<and> accepts r = params_get params (args_of lr_num_params f ! 0) []
                          @ ['': defaults ['' @ args_of lr_num_params f ! 0 @ ''=''
                             @ repr E d @ '']'']
           \<and> accepted_types E lr_num_params params f = Inr (ts @ [LRNone])"
proof -
  let ?args = "args_of lr_num_params f"
  let ?tags = "params_get params (?args ! 0) []"
  from assms(1,2) have "Noptional f = 1" by (simp add: Nrequired_def)
  then obtain d where d: "func_defaults f = Some [d]"
    by (auto simp: Noptional_def length_Suc_conv split: option.splits)
  from assms(1) have single: "?args = [func_args f ! (length (func_args f) - 1)]"
    unfolding Nparams_def args_of_def by (rule slice_from_single)
  from assms(1) have "0 < length (func_args f)"
    by (auto simp: Nparams_def args_of_def slice_from_def split: if_splits)
  with d have dd: "declared_default f (length (func_args f) - 1) = Some d"
    by (simp add: declared_default_def)
  from decorated_Inr[OF assms(5)] obtain ts' where
    cs: "compile_setting E lr_num_params params f = Inr (accepts r, ts', unpack r)" by blast
  from compile_setting_one[OF assms(1) cs] assms(2)
  obtain ts where p: "parse_tags E ?tags = Inr ts"
    and rest: "(if length ts \<noteq> 0 \<and> LRNone \<notin> set ts then
                 ebind (default_at (func_defaults f) 0) (\<lambda>d.
                   Inr (?tags @ ['': defaults ['' @ ?args ! 0 @ ''='' @ repr E d @ '']''],
                        ts @ [LRNone], unpack_one_optional (lifted E f)))
               else Inr (?tags, ts, unpack_one_optional (lifted E f)))
              = Inr (accepts r, ts', unpack r)"
    by (auto simp: compile_one_def Let_def ebind_Inr_iff)
  from parse_tags_length[OF p] assms(3) have "length ts \<noteq> 0" by simp
  moreover from parse_tags_origin[OF p] assms(4) have "LRNone \<notin> set ts" by blast
  ultimately have "accepts r = ?tags @ ['': defaults ['' @ ?args ! 0 @ ''='' @ repr E d @ '']'']"
    and "ts' = ts @ [LRNone]"
    using rest d by (simp_all add: default_at_def)
  with accepted_types_compiled[OF cs] dd single p show ?thesis by blast
qed

theorem one_optional_param_gains_none_witness:
  "Nparams 2 (sample_method [''x''] (Some [PyAtom ''1''])) = 1
   \<and> Nrequired 2 (sample_method [''x''] (Some [PyAtom ''1''])) = 0
   \<and> accepts_of (decorated sample_env 1 None [] 2 [(''x'', [''s'', ''i''])]
        (sample_method [''x''] (Some [PyAtom ''1''])))
      = Inr [''s'', ''i'', '': defaults [x=1]'']
   \<and> accepted_types sample_env 2 [(''x'', [''s'', ''i''])]
        (sample_method [''x''] (Some [PyAtom ''1'']))
      = Inr [LROther ''s'', LROther ''i'', LRNone]"
proof -
  let ?m = "sample_method [''x''] (Some [PyAtom ''1''])"
  let ?p = "[(''x'', [''s'', ''i''])]"
  obtain r where r: "decorated sample_env 1 None [] 2 ?p ?m = Inr r"
    by (simp add: run_defs)
  have n: "Nparams 2 ?m = 1" and q: "Nrequired 2 ?m = 0"
    by (simp_all add: run_defs)
  have g: "params_get ?p (args_of 2 ?m ! 0) [] = [''s'', ''i'']"
    by (simp add: run_defs)
  have ne: "params_get ?p (args_of 2 ?m ! 0) [] \<noteq> []" by (simp add: g)
  have no: "\<forall>s\<in>set (params_get ?p (args_of 2 ?m ! 0) []). parseTypeTag sample_env s \<noteq> Some LRNone"
    by (simp add: g sample_env_def)
  have dd: "declared_default ?m (length (func_args ?m) - 1) = Some (PyAtom ''1'')"
    and a0: "args_of 2 ?m ! 0 = ''x''"
    and pt: "parse_tags sample_env [''s'', ''i''] = Inr [LROther ''s'', LROther ''i'']"
    and rp: "repr sample_env (PyAtom ''1'') = ''1''"
    by (simp_all add: run_defs)
  from one_optional_param_gains_none[OF n q ne no r] obtain d ts where
    "declared_default ?m (length (func_args ?m) - 1) = Some d"
    "parse_tags sample_env (params_get ?p (args_of 2 ?m ! 0) []) = Inr ts"
    "accepts r = params_get ?p (args_of 2 ?m ! 0) []
                   @ ['': defaults ['' @ args_of 2 ?m ! 0 @ ''='' @ repr sample_env d @ '']'']"
    "accepted_types sample_env 2 ?p ?m = Inr (ts @ [LRNone])"
    by blast
  with dd g a0 pt rp have "accepts r = [''s'', ''i'', '': defaults [x=1]'']"
    and "accepted_types sample_env 2 ?p ?m = Inr [LROther ''s'', LROther ''i'', LRNone]"
    by simp_all
  with n q show ?thesis by (simp add: r accepts_of_def)
qed

theorem one_optional_param_no_types_counterexample:
  "Nparams 2 (sample_method [''x''] (Some [PyAtom ''1''])) = 1
   \<and> Nrequired 2 (sample_method [''x''] (Some [PyAtom ''1''])) = 0
   \<and> params_get [] (args_of 2 (sample_method [''x''] (Some [PyAtom ''1''])) ! 0) [] = []
   \<and> accepts_of (decorated sample_env 1 None [] 2 [] (sample_method [''x''] (Some [PyAtom ''1'']))) = Inr []
   \<and> accepted_types sample_env 2 [] (sample_method [''x''] (Some [PyAtom ''1''])) = Inr []"
  by (simp add: run_defs)

subsection \<open>The empty tag\<close>

lemma check_later_args_Inr:
  "check_later_args E params ps = Inr u \<Longrightarrow> p \<in> set ps
     \<Longrightarrow> s \<in> set (params_get params p []) \<Longrightarrow> parseTypeTag E s \<noteq> Some LRNone"
proof (induction ps)
  case Nil
  then show ?case by simp
next
  case (Cons a ps)
  from Cons.prems(1) obtain types where
    t: "parse_tags E (params_get params a []) = Inr types"
    and n: "LRNone \<notin> set types"
    and r: "check_later_args E params ps = Inr u"
    by (auto simp: ebind_Inr_iff split: if_splits)
  show ?case
  proof (cases "p = a")
    case True
    with Cons.prems(3) parse_tags_mem[OF t] n show ?thesis by blast
  next
    case False
    with Cons.prems(2) have "p \<in> set ps" by simp
    from Cons.IH[OF r this Cons.prems(3)] show ?thesis .
  qed
qed

lemma compile_setting_cases:
  obtains e where "compile_setting E lr_num_params params f = Inl e"
  | as ts u where "compile_setting E lr_num_params params f = Inr (as, ts, u)"
  by (cases "compile_setting E lr_num_params params f") auto

lemma check_first_arg_not_empty_tag:
  "check_first_arg E params args Nreq = Inl e \<Longrightarrow> e \<noteq> EmptyTagWithMoreThanOneRequired"
  unfolding check_first_arg_def
  by (auto split: if_splits option.splits dest: check_first_types_Inl)

lemma check_empty_first_guard:
  "check_empty_first E params args Nreq = Inl EmptyTagWithMoreThanOneRequired \<Longrightarrow> 1 < Nreq"
  unfolding check_empty_first_def
  by (auto simp: ebind_Inl_iff split: if_splits dest: parse_tags_Inl)

lemma check_later_args_not_empty_tag:
  "check_later_args E params ps = Inl e \<Longrightarrow> e \<noteq> EmptyTagWithMoreThanOneRequired"
  by (induction ps) (auto simp: ebind_Inl_iff split: if_splits dest: parse_tags_Inl)

lemma type_and_string_not_empty_tag:
  "type_and_string E args grp = Inl e \<Longrightarrow> e \<noteq> EmptyTagWithMoreThanOneRequired"
  unfolding type_and_string_def
  by (auto simp: ebind_Inl_iff split: if_splits list.splits dest: parse_tags_Inl parse_tag_Inl)

lemma compile_group_not_empty_tag:
  "compile_group E args defaults Npar grp = Inl e \<Longrightarrow> e \<noteq> EmptyTagWithMoreThanOneRequired"
  unfolding compile_group_def
  by (auto simp: ebind_Inl_iff split: if_splits
           dest: type_and_string_not_empty_tag defaults_note_Inl)

lemma compile_many_empty_tag_guard:
  assumes "compile_many E params args defaults Npar Nreq call
             = Inl EmptyTagWithMoreThanOneRequired"
  shows "1 < Nreq"
proof (cases "check_first_arg E params args Nreq")
  case (Inl e1)
  with assms have "e1 = EmptyTagWithMoreThanOneRequired" by (simp add: compile_many_def)
  with check_first_arg_not_empty_tag[OF Inl] show ?thesis by simp
next
  case c1: (Inr u1)
  show ?thesis
  proof (cases "check_empty_first E params args Nreq")
    case (Inl e2)
    with assms c1 have "e2 = EmptyTagWithMoreThanOneRequired" by (simp add: compile_many_def)
    with Inl show ?thesis by (simp add: check_empty_first_guard)
  next
    case c2: (Inr u2)
    show ?thesis
    proof (cases "check_later_args E params (drop 1 args)")
      case (Inl e3)
      with assms c1 c2 have "e3 = EmptyTagWithMoreThanOneRequired"
        by (simp add: compile_many_def)
      with check_later_args_not_empty_tag[OF Inl] show ?thesis by simp
    next
      case c3: (Inr u3)
      show ?thesis
      proof (cases "emap (compile_group E args defaults Npar) (make_groups params args Npar Nreq)")
        case (Inl e4)
        with assms c1 c2 c3 have e: "e4 = EmptyTagWithMoreThanOneRequired"
          by (simp add: compile_many_def)
        from emap_Inl[OF Inl] obtain g where
          "compile_group E args defaults Npar g = Inl e4" by blast
        from compile_group_not_empty_tag[OF this] e show ?thesis by simp
      next
        case c4: (Inr ts)
        with assms c1 c2 c3
        have "all_defaults_note E args defaults = Inl EmptyTagWithMoreThanOneRequired"
          by (simp add: compile_many_def Let_def ebind_Inl_iff split: if_splits)
        from all_defaults_note_Inl[OF this] show ?thesis by simp
      qed
    qed
  qed
qed

text \<open>
  C3, as the code has it: for a method with \<open>Nparams \<ge> 2\<close>, a tag that parses to the
  no-argument descriptor in the declared list of the first parameter makes registration
  fail when more than one argument is required, and such a tag in the declared list of any
  later parameter always makes registration fail. When at most one argument is required
  (also when none is), registration never fails with the error of the first rule: the
  empty tag is permitted on the first parameter.
\<close>

theorem empty_tag_rules:
  assumes "2 \<le> Nparams lr_num_params f"
  shows "(1 < Nrequired lr_num_params f
            \<and> (\<exists>s\<in>set (params_get params (args_of lr_num_params f ! 0) []).
                  parseTypeTag E s = Some LRNone)
          \<longrightarrow> isl (decorated E lr_ID lr_name rets lr_num_params params f))
         \<and> (\<forall>j. 1 \<le> j \<and> j < Nparams lr_num_params f
                \<and> (\<exists>s\<in>set (params_get params (args_of lr_num_params f ! j) []).
                      parseTypeTag E s = Some LRNone)
              \<longrightarrow> isl (decorated E lr_ID lr_name rets lr_num_params params f))
         \<and> (Nrequired lr_num_params f \<le> 1
              \<longrightarrow> decorated E lr_ID lr_name rets lr_num_params params f
                    \<noteq> Inl EmptyTagWithMoreThanOneRequired)"
proof -
  let ?args = "args_of lr_num_params f"
  let ?Nreq = "Nrequired lr_num_params f"
  let ?res = "decorated E lr_ID lr_name rets lr_num_params params f"
  have first: "isl ?res"
    if q: "1 < ?Nreq" and s: "s \<in> set (params_get params (?args ! 0) [])"
      and p: "parseTypeTag E s = Some LRNone" for s
  proof (cases rule: compile_setting_cases[of E lr_num_params params f])
    case (1 e)
    then show ?thesis by (simp add: isl_decorated)
  next
    case (2 as ts u)
    from compile_many_checks[OF compile_setting_many[OF assms 2]]
    have "check_empty_first E params ?args ?Nreq = Inr ()" by blast
    then obtain types where t: "parse_tags E (params_get params (?args ! 0) []) = Inr types"
      and n: "\<not> (1 < ?Nreq \<and> LRNone \<in> set types)"
      by (auto simp: check_empty_first_def ebind_Inr_iff split: if_splits)
    from parse_tags_mem[OF t s p] q n show ?thesis by blast
  qed
  have later: "isl ?res"
    if j: "1 \<le> j" "j < Nparams lr_num_params f"
      and s: "s \<in> set (params_get params (?args ! j) [])"
      and p: "parseTypeTag E s = Some LRNone" for j s
  proof (cases rule: compile_setting_cases[of E lr_num_params params f])
    case (1 e)
    then show ?thesis by (simp add: isl_decorated)
  next
    case (2 as ts u)
    from compile_many_checks[OF compile_setting_many[OF assms 2]]
    have c: "check_later_args E params (drop 1 ?args) = Inr ()" by blast
    from j have "?args ! j = drop 1 ?args ! (j - 1)" and "j - 1 < length (drop 1 ?args)"
      by (simp_all add: Nparams_def)
    then have "?args ! j \<in> set (drop 1 ?args)" by (metis nth_mem)
    from check_later_args_Inr[OF c this s] p show ?thesis by blast
  qed
  have permitted: "?res \<noteq> Inl EmptyTagWithMoreThanOneRequired" if q: "?Nreq \<le> 1"
  proof
    assume "?res = Inl EmptyTagWithMoreThanOneRequired"
    then have "compile_setting E lr_num_params params f = Inl EmptyTagWithMoreThanOneRequired"
      by (simp add: decorated_Inl)
    from compile_setting_Inl_many[OF assms this]
    have "compile_many E params ?args (func_defaults f) (Nparams lr_num_params f) ?Nreq
            (lifted E f) = Inl EmptyTagWithMoreThanOneRequired" by auto
    from compile_many_empty_tag_guard[OF this] q show False by simp
  qed
  from first later permitted show ?thesis by blast
qed

theorem empty_tag_rules_witness:
  "2 \<le> Nparams 2 (sample_method [''a'', ''b'', ''d''] None)
   \<and> 1 < Nrequired 2 (sample_method [''a'', ''b'', ''d''] None)
   \<and> isl (decorated sample_env 1 None [] 2 [(''a'', ['''', ''s''])]
           (sample_method [''a'', ''b'', ''d''] None))
   \<and> isl (decorated sample_env 1 None [] 2 [(''a'', [''s'']), (''b'', [''i'', ''''])]
           (sample_method [''a'', ''b'', ''d''] None))
   \<and> Nparams 2 (sample_method [''a'', ''b''] (Some [PyAtom ''1''])) = 2
   \<and> Nrequired 2 (sample_method [''a'', ''b''] (Some [PyAtom ''1''])) = 1
   \<and> parse_tags sample_env (params_get [(''a'', ['''', ''s''])]
        (args_of 2 (sample_method [''a'', ''b''] (Some [PyAtom ''1''])) ! 0) [])
      = Inr [LRNone, LROther ''s'']
   \<and> decorated sample_env 1 None [] 2 [(''a'', ['''', ''s''])]
        (sample_method [''a'', ''b''] (Some [PyAtom ''1'']))
      \<noteq> Inl EmptyTagWithMoreThanOneRequired
   \<and> accepts_of (decorated sample_env 1 None [] 2 [(''a'', ['''', ''s''])]
        (sample_method [''a'', ''b''] (Some [PyAtom ''1''])))
      = Inr [''({a}, ?{b})'', ''(s{a}, ?{b})'', ''{a}: defaults [b=1]'', ''s{a}: defaults [b=1]'']
   \<and> Nparams 2 (sample_method [''a'', ''b''] (Some [PyAtom ''1'', PyAtom ''2''])) = 2
   \<and> Nrequired 2 (sample_method [''a'', ''b''] (Some [PyAtom ''1'', PyAtom ''2''])) = 0
   \<and> decorated sample_env 1 None [] 2 [(''a'', ['''', ''s''])]
        (sample_method [''a'', ''b''] (Some [PyAtom ''1'', PyAtom ''2'']))
      \<noteq> Inl EmptyTagWithMoreThanOneRequired
   \<and> accepts_of (decorated sample_env 1 None [] 2 [(''a'', ['''', ''s''])]
        (sample_method [''a'', ''b''] (Some [PyAtom ''1'', PyAtom ''2''])))
      = Inr [''({a}, ?{b})'', ''(s{a}, ?{b})'', ''{a}: defaults [b=1]'', ''s{a}: defaults [b=1]'']"
proof -
  let ?m = "sample_method [''a'', ''b'', ''d''] None"
  let ?one = "sample_method [''a'', ''b''] (Some [PyAtom ''1''])"
  let ?zero = "sample_method [''a'', ''b''] (Some [PyAtom ''1'', PyAtom ''2''])"
  let ?p = "[(''a'', ['''', ''s''])]"
  have n: "2 \<le> Nparams 2 ?m" and q: "1 < Nrequired 2 ?m" and j: "1 < Nparams 2 ?m"
    by (simp_all add: run_defs)
  have g0: "params_get ?p (args_of 2 ?m ! 0) [] = ['''', ''s'']"
    and g1: "params_get [(''a'', [''s'']), (''b'', [''i'', ''''])] (args_of 2 ?m ! 1) []
               = [''i'', '''']"
    and p: "parseTypeTag sample_env '''' = Some LRNone"
    by (simp_all add: run_defs)
  from empty_tag_rules[OF n, of ?p sample_env 1 None "[]", THEN conjunct1] q g0 p
  have w1: "isl (decorated sample_env 1 None [] 2 ?p ?m)" by simp
  from empty_tag_rules[OF n, of "[(''a'', [''s'']), (''b'', [''i'', ''''])]" sample_env 1 None "[]",
      THEN conjunct2, THEN conjunct1, THEN spec, of 1] j g1 p
  have w2: "isl (decorated sample_env 1 None [] 2 [(''a'', [''s'']), (''b'', [''i'', ''''])] ?m)"
    by simp
  have n1: "Nparams 2 ?one = 2" and q1: "Nrequired 2 ?one = 1"
    and n0: "Nparams 2 ?zero = 2" and q0: "Nrequired 2 ?zero = 0"
    by (simp_all add: run_defs)
  have t1: "parse_tags sample_env (params_get ?p (args_of 2 ?one ! 0) [])
              = Inr [LRNone, LROther ''s'']"
    by (simp add: run_defs)
  from n1 have n1': "2 \<le> Nparams 2 ?one" by simp
  from n0 have n0': "2 \<le> Nparams 2 ?zero" by simp
  from empty_tag_rules[OF n1', of ?p sample_env 1 None "[]", THEN conjunct2, THEN conjunct2] q1
  have w3: "decorated sample_env 1 None [] 2 ?p ?one \<noteq> Inl EmptyTagWithMoreThanOneRequired"
    by simp
  from empty_tag_rules[OF n0', of ?p sample_env 1 None "[]", THEN conjunct2, THEN conjunct2] q0
  have w4: "decorated sample_env 1 None [] 2 ?p ?zero \<noteq> Inl EmptyTagWithMoreThanOneRequired"
    by simp
  have a1: "accepts_of (decorated sample_env 1 None [] 2 ?p ?one)
      = Inr [''({a}, ?{b})'', ''(s{a}, ?{b})'', ''{a}: defaults [b=1]'', ''s{a}: defaults [b=1]'']"
    by (simp add: run_defs)
  have a0: "accepts_of (decorated sample_env 1 None [] 2 ?p ?zero)
      = Inr [''({a}, ?{b})'', ''(s{a}, ?{b})'', ''{a}: defaults [b=1]'', ''s{a}: defaults [b=1]'']"
    by (simp add: run_defs)
  from n q w1 w2 n1 q1 t1 w3 a1 n0 q0 w4 a0 show ?thesis by blast
qed

theorem empty_tag_first_param_counterexample:
  "Nrequired 2 (sample_method [''x''] (Some [PyAtom ''1''])) = 0
   \<and> parse_tags sample_env (params_get [(''x'', ['''', ''s''])]
        (args_of 2 (sample_method [''x''] (Some [PyAtom ''1''])) ! 0) [])
      = Inr [LRNone, LROther ''s'']
   \<and> accepts_of (decorated sample_env 1 None [] 2 [(''x'', ['''', ''s''])]
        (sample_method [''x''] (Some [PyAtom ''1''])))
      = Inr ['''', ''s'']"
  by (simp add: run_defs)

subsection \<open>A cluster as the only accepted type\<close>

text \<open>
  C5, as the code has it: for a method with \<open>Nparams \<ge> 2\<close>, a group of one tag that
  parses to a cluster makes registration fail. (A method with one parameter may declare a
  cluster: its branch has no such check.)
\<close>

theorem single_cluster_group_fails:
  assumes "2 \<le> Nparams lr_num_params f"
      and "g \<in> set (make_groups params (args_of lr_num_params f) (Nparams lr_num_params f)
                     (Nrequired lr_num_params f))"
      and "length g = 1"
      and "parseTypeTag E (g ! 0) = Some t"
      and "is_cluster t"
  shows "isl (decorated E lr_ID lr_name rets lr_num_params params f)"
proof (cases rule: compile_setting_cases[of E lr_num_params params f])
  case (1 e)
  then show ?thesis by (simp add: isl_decorated)
next
  case (2 as ts u)
  let ?args = "args_of lr_num_params f"
  let ?Npar = "Nparams lr_num_params f"
  from assms(3) obtain s where g: "g = [s]" by (cases g) auto
  with assms(4,5) have "type_and_string E ?args g = Inl ClusterInFirstParam"
    by (simp add: type_and_string_def parse_tag_def)
  then have "isl (compile_group E ?args (func_defaults f) ?Npar g)"
    by (simp add: compile_group_def)
  with assms(2) have "isl (emap (compile_group E ?args (func_defaults f) ?Npar)
      (make_groups params ?args ?Npar (Nrequired lr_num_params f)))"
    by (rule emap_isl)
  with compile_many_checks[OF compile_setting_many[OF assms(1) 2]]
  show ?thesis by auto
qed

theorem single_cluster_group_fails_witness:
  "2 \<le> Nparams 2 (sample_method [''a'', ''b''] (Some [PyAtom ''1'']))
   \<and> [''(ii)''] \<in> set (make_groups [(''a'', [''(ii)''])]
         (args_of 2 (sample_method [''a'', ''b''] (Some [PyAtom ''1''])))
         (Nparams 2 (sample_method [''a'', ''b''] (Some [PyAtom ''1''])))
         (Nrequired 2 (sample_method [''a'', ''b''] (Some [PyAtom ''1'']))))
   \<and> parseTypeTag sample_env ''(ii)'' = Some (LRCluster [LROther ''i'', LROther ''i''])
   \<and> isl (decorated sample_env 1 None [] 2 [(''a'', [''(ii)''])]
           (sample_method [''a'', ''b''] (Some [PyAtom ''1''])))"
proof -
  let ?m = "sample_method [''a'', ''b''] (Some [PyAtom ''1''])"
  have n: "2 \<le> Nparams 2 ?m" by (simp add: run_defs)
  have g: "[''(ii)''] \<in> set (make_groups [(''a'', [''(ii)''])] (args_of 2 ?m) (Nparams 2 ?m)
                               (Nrequired 2 ?m))"
    by (simp add: run_defs)
  have l: "length [''(ii)''] = 1" by simp
  have p: "parseTypeTag sample_env ([''(ii)''] ! 0) = Some (LRCluster [LROther ''i'', LROther ''i''])"
    by (simp add: run_defs)
  have c: "is_cluster (LRCluster [LROther ''i'', LROther ''i''])" by simp
  from single_cluster_group_fails[OF n g l p c, of 1 None "[]"] n g p
  show ?thesis by simp
qed

theorem single_cluster_one_param_counterexample:
  "Nparams 2 (sample_method [''x''] None) = 1
   \<and> accepts_of (decorated sample_env 1 None [] 2 [(''x'', [''(ii)''])] (sample_method [''x''] None))
      = Inr [''(ii)'']
   \<and> accepted_types sample_env 2 [(''x'', [''(ii)''])] (sample_method [''x''] None)
      = Inr [LRCluster [LROther ''i'', LROther ''i'']]
   \<and> is_cluster (LRCluster [LROther ''i'', LROther ''i''])"
  by (simp add: run_defs)

subsection \<open>When the list of accepted strings is empty\<close>

lemma compile_one_result:
  assumes "compile_one E params args defaults Nreq call = Inr (as, ts, u)"
  shows "(params_get params (args ! 0) [] \<noteq> [] \<longrightarrow> as \<noteq> [])
         \<and> (params_get params (args ! 0) [] = [] \<longrightarrow> as = [])
         \<and> (Nreq = 0 \<longrightarrow> u = unpack_one_optional call)"
proof -
  let ?tags = "params_get params (args ! 0) []"
  from assms obtain ts0 where p: "parse_tags E ?tags = Inr ts0"
    and rest: "(if Nreq = 0 then
                 (if length ts0 \<noteq> 0 \<and> LRNone \<notin> set ts0 then
                    ebind (default_at defaults 0) (\<lambda>d.
                      Inr (?tags @ ['': defaults ['' @ args ! 0 @ ''='' @ repr E d @ '']''],
                           ts0 @ [LRNone], unpack_one_optional call))
                  else Inr (?tags, ts0, unpack_one_optional call))
               else Inr (?tags, ts0, unpack_direct call)) = Inr (as, ts, u)"
    by (auto simp: compile_one_def Let_def ebind_Inr_iff)
  from parse_tags_length[OF p] have len: "?tags = [] \<longleftrightarrow> ts0 = []" by auto
  from rest len show ?thesis
    by (auto simp: ebind_Inr_iff split: if_splits)
qed

lemma compile_many_result:
  assumes "compile_many E params args defaults Npar 0 call = Inr (as, ts, u)"
  shows "as \<noteq> [] \<and> u = unpack_many_optional call"
proof -
  from assms obtain xs where
    rest: "(if LRNone \<notin> set (map fst xs) then
              ebind (all_defaults_note E args defaults) (\<lambda>note.
                Inr (map snd xs @ [note], map fst xs @ [LRNone], unpack_many_optional call))
            else Inr (map snd xs, map fst xs, unpack_many_optional call)) = Inr (as, ts, u)"
    by (auto simp: compile_many_def Let_def ebind_Inr_iff)
  show ?thesis
  proof (cases "LRNone \<in> set (map fst xs)")
    case True
    then have "xs \<noteq> []" by auto
    with True rest show ?thesis by auto
  next
    case False
    with rest show ?thesis by (auto simp: ebind_Inr_iff)
  qed
qed

text \<open>
  C2, as the code has it: a registered method whose parameters are all optional
  (\<open>Nrequired = 0\<close>; \<^verbatim>\<open>unpack\<close> then answers a \<^verbatim>\<open>None\<close> payload with the empty call
  \<^verbatim>\<open>f(self, c)\<close>) has a non-empty list of accepted strings, except that a method with one
  parameter and no declared tags for it has the empty list, with or without a default; and
  a method without parameters always has a non-empty list. (A method that requires
  arguments has a non-empty list as well whenever it has a group, so the list being
  non-empty does not say that the empty call is accepted.)
\<close>

theorem accepts_nonempty_rule:
  assumes "decorated E lr_ID lr_name rets lr_num_params params f = Inr r"
  shows "(Nrequired lr_num_params f = 0
            \<and> \<not> (Nparams lr_num_params f = 1
                  \<and> params_get params (args_of lr_num_params f ! 0) [] = [])
          \<longrightarrow> accepts r \<noteq> [])
         \<and> (Nparams lr_num_params f = 1
              \<and> params_get params (args_of lr_num_params f ! 0) [] = []
            \<longrightarrow> accepts r = [])
         \<and> (Nparams lr_num_params f = 0 \<longrightarrow> accepts r \<noteq> [])
         \<and> (Nrequired lr_num_params f = 0 \<longrightarrow> unpack r self c PyNone = lifted E f [self, c])"
proof -
  from decorated_Inr[OF assms] obtain ts where
    cs: "compile_setting E lr_num_params params f = Inr (accepts r, ts, unpack r)" by blast
  consider (none) "Nparams lr_num_params f = 0" | (one) "Nparams lr_num_params f = 1"
    | (many) "2 \<le> Nparams lr_num_params f" by linarith
  then show ?thesis
  proof cases
    case none
    from compile_setting_none[OF none cs]
    have "accepts r = [[]]" and "unpack r = unpack_none (lifted E f)"
      by (auto simp: compile_none_def Let_def ebind_Inr_iff)
    with none show ?thesis by (simp add: unpack_none_def)
  next
    case one
    from compile_one_result[OF compile_setting_one[OF one cs]] one
    show ?thesis by (auto simp: unpack_one_optional_def)
  next
    case many
    have "accepts r \<noteq> [] \<and> unpack r = unpack_many_optional (lifted E f)"
      if "Nrequired lr_num_params f = 0"
      using compile_setting_many[OF many cs] that by (auto dest: compile_many_result)
    with many show ?thesis by (auto simp: unpack_many_optional_def)
  qed
qed

theorem accepts_nonempty_rule_witness:
  "Nrequired 2 (sample_method [''a'', ''b''] (Some [PyAtom ''1'', PyAtom ''2''])) = 0
   \<and> Nparams 2 (sample_method [''a'', ''b''] (Some [PyAtom ''1'', PyAtom ''2''])) = 2
   \<and> accepts_of (decorated sample_env 1 None [] 2 [(''a'', [''s''])]
        (sample_method [''a'', ''b''] (Some [PyAtom ''1'', PyAtom ''2''])))
      \<noteq> Inr []
   \<and> unpack_of (decorated sample_env 1 None [] 2 [(''a'', [''s''])]
        (sample_method [''a'', ''b''] (Some [PyAtom ''1'', PyAtom ''2''])))
        (PyAtom ''self'') (PyAtom ''ctx'') PyNone
      = Inr [PyAtom ''self'', PyAtom ''ctx'', PyAtom ''1'', PyAtom ''2'']
   \<and> Nparams 2 (sample_method [''x''] None) = 1
   \<and> accepts_of (decorated sample_env 1 None [] 2 [] (sample_method [''x''] None)) = Inr []"
proof -
  let ?m = "sample_method [''a'', ''b''] (Some [PyAtom ''1'', PyAtom ''2''])"
  let ?k = "sample_method [''x''] None"
  obtain r where r: "decorated sample_env 1 None [] 2 [(''a'', [''s''])] ?m = Inr r"
    by (simp add: run_defs)
  obtain q where q: "decorated sample_env 1 None [] 2 [] ?k = Inr q"
    by (simp add: run_defs)
  have z: "Nrequired 2 ?m = 0" and n: "Nparams 2 ?m = 2" and n': "Nparams 2 ?k = 1"
    and g: "params_get [] (args_of 2 ?k ! 0) [] = []"
    and l: "lifted sample_env ?m [PyAtom ''self'', PyAtom ''ctx'']
             = Inr [PyAtom ''self'', PyAtom ''ctx'', PyAtom ''1'', PyAtom ''2'']"
    by (simp_all add: run_defs)
  from accepts_nonempty_rule[OF r, of "PyAtom ''self''" "PyAtom ''ctx''"] z n l
  have a: "accepts r \<noteq> []"
    and u: "unpack r (PyAtom ''self'') (PyAtom ''ctx'') PyNone
              = Inr [PyAtom ''self'', PyAtom ''ctx'', PyAtom ''1'', PyAtom ''2'']"
    by simp_all
  from accepts_nonempty_rule[OF q, of "PyAtom ''self''" "PyAtom ''ctx''"] n' g
  have e: "accepts q = []" by simp
  from z n n' a u e show ?thesis by (simp add: r q accepts_of_def unpack_of_def)
qed

theorem accepts_nonempty_iff_counterexample:
  "Nrequired 2 (sample_method [''x''] None) = 1
   \<and> lifted sample_env (sample_method [''x''] None) [PyAtom ''self'', PyAtom ''ctx'']
      = Inl TypeError
   \<and> accepts_of (decorated sample_env 1 None [] 2 [(''x'', [''s''])] (sample_method [''x''] None))
      = Inr [''s'']
   \<and> Nrequired 2 (sample_method [''x''] (Some [PyAtom ''1''])) = 0
   \<and> unpack_of (decorated sample_env 1 None [] 2 [] (sample_method [''x''] (Some [PyAtom ''1''])))
        (PyAtom ''self'') (PyAtom ''ctx'') PyNone
      = Inr [PyAtom ''self'', PyAtom ''ctx'', PyAtom ''1'']
   \<and> accepts_of (decorated sample_env 1 None [] 2 [] (sample_method [''x''] (Some [PyAtom ''1''])))
      = Inr []"
  by (simp add: run_defs)

subsection \<open>The defaults shown for a group shorter than the parameter list\<close>

text \<open>
  C1 fails on the code. For \<^verbatim>\<open>def f(self, c, a, b=1, d=2)\<close> registered with
  \<^verbatim>\<open>a=['s']\<close>, the group of arity 2 leaves out \<^verbatim>\<open>d\<close>, whose declared default is \<^verbatim>\<open>2\<close>,
  and its string says \<^verbatim>\<open>d=1\<close>: the source reads \<^verbatim>\<open>defaults[n-len(group)]\<close>, which is the
  default of parameter \<^verbatim>\<open>n\<close> only for the groups of arity \<open>Nrequired\<close> (as the third
  string shows).
\<close>

theorem defaults_note_wrong_default:
  "accepts_of (decorated sample_env 1 None [] 2 [(''a'', [''s''])]
     (sample_method [''a'', ''b'', ''d''] (Some [PyAtom ''1'', PyAtom ''2''])))
   = Inr [''(s{a}, ?{b}, ?{d})'', ''(s{a}, ?{b}): defaults [d=1]'', ''s{a}: defaults [b=1, d=2]'']
   \<and> func_args (sample_method [''a'', ''b'', ''d''] (Some [PyAtom ''1'', PyAtom ''2''])) ! 4 = ''d''
   \<and> declared_default (sample_method [''a'', ''b'', ''d''] (Some [PyAtom ''1'', PyAtom ''2''])) 4
      = Some (PyAtom ''2'')"
  by (simp add: run_defs)

end
